theory Spec2Isabelle
  imports Complex_Main
begin

section \<open>JavaScript values\<close>

text \<open>
  The loaders of \<^verbatim>\<open>data-loader.js\<close> and \<^verbatim>\<open>data-processor.js\<close> work on loosely typed rows:
  objects produced by a CSV parser, by \<^verbatim>\<open>JSON.parse\<close> or by a database driver. The
  embedding therefore starts with the values themselves.

  A string is its sequence of UTF-16 code units, so that the CJK column names and the
  characters U+5E74 and U+6708 of the era dates are ordinary elements. \<open>U\<close> turns an ASCII
  literal into such a sequence.

  A number is NaN, an infinity or a finite value. Finite values are exact rationals:
  rounding to the nearest double, overflow to an infinity and the sign of zero are not
  modelled.
\<close>

type_synonym jsstring = "nat list"

definition U :: "string \<Rightarrow> jsstring" where
  "U s = map of_char s"

datatype jsnum = NaN | PInf | NInf | Fin rat

text \<open>
  Every value but \<^verbatim>\<open>undefined\<close> and \<^verbatim>\<open>null\<close> has a prototype, from which it inherits
  properties: \<^verbatim>\<open>Object.prototype\<close> for an object, and \<^verbatim>\<open>Array.prototype\<close>,
  \<^verbatim>\<open>String.prototype\<close>, \<^verbatim>\<open>Number.prototype\<close> or \<^verbatim>\<open>Boolean.prototype\<close>, each followed by
  \<^verbatim>\<open>Object.prototype\<close>, for the other kinds. A parsed row holds data only; reading a
  property of a row can also give a built-in: \<open>JMember p n\<close> is the member named \<open>n\<close>
  of the prototype \<open>p\<close> (a function), and \<open>JProto p\<close> is the prototype object itself.
\<close>

datatype proto = ObjectP | ArrayP | StringP | NumberP | BooleanP

datatype jsval =
    JUndefined
  | JNull
  | JBool bool
  | JNum jsnum
  | JStr jsstring
  | JArr "jsval list"
  | JObj "(jsstring \<times> jsval) list"
  | JMember proto jsstring
  | JProto proto

datatype error = TypeError | FormatError

definition bindE :: "error + 'a \<Rightarrow> ('a \<Rightarrow> error + 'b) \<Rightarrow> error + 'b" where
  "bindE m f = (case m of Inl e \<Rightarrow> Inl e | Inr v \<Rightarrow> f v)"

subsection \<open>Numbers\<close>

text \<open>\<^verbatim>\<open>x < y\<close> on numbers; \<^verbatim>\<open>x > y\<close> is \<open>num_lt y x\<close>. Any comparison with NaN is false.\<close>

fun num_lt :: "jsnum \<Rightarrow> jsnum \<Rightarrow> bool" where
  "num_lt NaN _ = False"
| "num_lt _ NaN = False"
| "num_lt NInf b = (b \<noteq> NInf)"
| "num_lt _ NInf = False"
| "num_lt PInf _ = False"
| "num_lt (Fin a) PInf = True"
| "num_lt (Fin a) (Fin b) = (a < b)"

text \<open>\<^verbatim>\<open>x <= y\<close> on numbers, used to state bounds.\<close>

definition num_le :: "jsnum \<Rightarrow> jsnum \<Rightarrow> bool" where
  "num_le a b = (a \<noteq> NaN \<and> b \<noteq> NaN \<and> \<not> num_lt b a)"

text \<open>Truthiness of a number: \<^verbatim>\<open>!x\<close> holds exactly for zero and NaN.\<close>

definition num_truthy :: "jsnum \<Rightarrow> bool" where
  "num_truthy n = (n \<noteq> NaN \<and> n \<noteq> Fin 0)"

definition is_finite :: "jsnum \<Rightarrow> bool" where
  "is_finite n = (case n of Fin _ \<Rightarrow> True | _ \<Rightarrow> False)"

text \<open>\<^verbatim>\<open>x || 0\<close> on a number.\<close>

definition num_or0 :: "jsnum \<Rightarrow> jsnum" where
  "num_or0 n = (if num_truthy n then n else Fin 0)"

text \<open>\<^verbatim>\<open>x / y\<close>. The sources divide only after checking \<^verbatim>\<open>x > 0 && y > 0\<close>; the other
  cases follow IEEE 754 with a positive zero.\<close>

fun num_div :: "jsnum \<Rightarrow> jsnum \<Rightarrow> jsnum" where
  "num_div NaN _ = NaN"
| "num_div _ NaN = NaN"
| "num_div (Fin a) (Fin b) =
     (if b = 0 then (if a = 0 then NaN else if 0 < a then PInf else NInf) else Fin (a / b))"
| "num_div (Fin a) _ = Fin 0"
| "num_div PInf (Fin b) = (if b < 0 then NInf else PInf)"
| "num_div NInf (Fin b) = (if b < 0 then PInf else NInf)"
| "num_div _ _ = NaN"

subsection \<open>Truthiness and equality of values\<close>

fun truthy :: "jsval \<Rightarrow> bool" where
  "truthy JUndefined = False"
| "truthy JNull = False"
| "truthy (JBool b) = b"
| "truthy (JNum n) = num_truthy n"
| "truthy (JStr s) = (s \<noteq> [])"
| "truthy (JArr _) = True"
| "truthy (JObj _) = True"
| "truthy (JMember _ _) = True"
| "truthy (JProto _) = True"

text \<open>\<^verbatim>\<open>a || b\<close> on values.\<close>

definition js_or :: "jsval \<Rightarrow> jsval \<Rightarrow> jsval" where
  "js_or a b = (if truthy a then a else b)"

text \<open>
  \<^verbatim>\<open>Array.prototype.includes\<close> compares with SameValueZero: primitives by value (NaN
  equals NaN), arrays and objects by identity. A value read from a parsed row is never
  the same object as an entry of the caller's list, so two arrays or objects compare
  unequal. A built-in is the same as itself.
\<close>

fun sameValueZero :: "jsval \<Rightarrow> jsval \<Rightarrow> bool" where
  "sameValueZero (JArr _) _ = False"
| "sameValueZero (JObj _) _ = False"
| "sameValueZero a b = (a = b)"

definition arr_includes :: "jsval list \<Rightarrow> jsval \<Rightarrow> bool" where
  "arr_includes xs v = list_ex (\<lambda>x. sameValueZero x v) xs"

subsection \<open>Strings\<close>

definition is_digit :: "nat \<Rightarrow> bool" where
  "is_digit c = (48 \<le> c \<and> c \<le> 57)"

text \<open>The value of a run of decimal digits, as \<^verbatim>\<open>parseInt\<close> reads it (exact; JavaScript
  agrees below \<open>2 ^ 53\<close>).\<close>

definition digits_val :: "jsstring \<Rightarrow> nat" where
  "digits_val ds = foldl (\<lambda>a c. 10 * a + (c - 48)) 0 ds"

text \<open>The decimal digits of a natural number, as a template literal prints an integer
  (JavaScript agrees below \<open>10 ^ 21\<close>).\<close>

fun show_nat :: "nat \<Rightarrow> jsstring" where
  "show_nat n = (if n < 10 then [48 + n] else show_nat (n div 10) @ [48 + n mod 10])"

declare show_nat.simps [simp del]

text \<open>\<^verbatim>\<open>s.padStart(2, '0')\<close>\<close>

definition padStart2 :: "jsstring \<Rightarrow> jsstring" where
  "padStart2 s = (if length s < 2 then replicate (2 - length s) 48 @ s else s)"

text \<open>StrWhiteSpaceChar: white space and line terminators.\<close>

definition is_ws :: "nat \<Rightarrow> bool" where
  "is_ws c = (List.member [9, 10, 11, 12, 13, 32, 160, 5760, 8232, 8233, 8239, 8287, 12288, 65279] c
              \<or> (8192 \<le> c \<and> c \<le> 8202))"

text \<open>An optional sign: the factor and the rest.\<close>

definition read_sign :: "jsstring \<Rightarrow> rat \<times> jsstring" where
  "read_sign s = (case s of
      [] \<Rightarrow> (1, [])
    | c # t \<Rightarrow> if c = 43 then (1, t) else if c = 45 then (-1, t) else (1, s))"

text \<open>An exponent part \<^verbatim>\<open>[eE][+-]?[0-9]+\<close> if one stands at the head: the power of ten
  as a factor and the rest. Otherwise the factor is one and nothing is consumed.\<close>

definition read_exponent :: "jsstring \<Rightarrow> rat \<times> jsstring" where
  "read_exponent s = (case s of
      [] \<Rightarrow> (1, s)
    | c # t \<Rightarrow>
        if c = 101 \<or> c = 69 then
          (let (sg, u) = read_sign t; ds = takeWhile is_digit u in
           if ds = [] then (1, s)
           else ((if sg < 0 then 1 / 10 ^ digits_val ds else 10 ^ digits_val ds),
                 dropWhile is_digit u))
        else (1, s))"

text \<open>The longest prefix that is an unsigned decimal literal
  (\<^verbatim>\<open>digits [. digits] [exp]\<close>, \<^verbatim>\<open>. digits [exp]\<close>): its value and the rest.\<close>

definition read_decimal :: "jsstring \<Rightarrow> (rat \<times> jsstring) option" where
  "read_decimal s =
     (let ip = takeWhile is_digit s; r1 = dropWhile is_digit s;
          (fp, r2) = (case r1 of
                        [] \<Rightarrow> ([], r1)
                      | c # t \<Rightarrow> if c = 46 then (takeWhile is_digit t, dropWhile is_digit t)
                                 else ([], r1))
      in if ip = [] \<and> fp = [] then None
         else (let (ex, r3) = read_exponent r2
               in Some (of_nat (digits_val (ip @ fp)) / 10 ^ length fp * ex, r3)))"

definition Infinity_str :: jsstring where
  "Infinity_str = U ''Infinity''"

text \<open>\<^verbatim>\<open>parseFloat\<close> on a string: leading white space is skipped, then the longest
  prefix that is a signed decimal literal or a signed \<^verbatim>\<open>Infinity\<close> is read; NaN if there
  is none.\<close>

definition parseFloat_str :: "jsstring \<Rightarrow> jsnum" where
  "parseFloat_str s =
     (let (sg, t) = read_sign (dropWhile is_ws s) in
      if take 8 t = Infinity_str then (if sg < 0 then NInf else PInf)
      else (case read_decimal t of None \<Rightarrow> NaN | Some (v, _) \<Rightarrow> Fin (sg * v)))"

text \<open>A radix prefix literal of \<^verbatim>\<open>Number(s)\<close>: \<^verbatim>\<open>0x\<close>, \<^verbatim>\<open>0o\<close>, \<^verbatim>\<open>0b\<close> and digits.\<close>

definition radix_digit :: "nat \<Rightarrow> nat option" where
  "radix_digit c =
     (if 48 \<le> c \<and> c \<le> 57 then Some (c - 48)
      else if 97 \<le> c \<and> c \<le> 102 then Some (c - 87)
      else if 65 \<le> c \<and> c \<le> 70 then Some (c - 55)
      else None)"

definition read_radix :: "nat \<Rightarrow> jsstring \<Rightarrow> jsnum" where
  "read_radix b ds =
     (if ds \<noteq> [] \<and> list_all (\<lambda>c. case radix_digit c of None \<Rightarrow> False | Some d \<Rightarrow> d < b) ds
      then Fin (of_nat (foldl (\<lambda>a c. b * a + the (radix_digit c)) 0 ds))
      else NaN)"

definition trim :: "jsstring \<Rightarrow> jsstring" where
  "trim s = rev (dropWhile is_ws (rev (dropWhile is_ws s)))"

text \<open>StringToNumber, the conversion that \<^verbatim>\<open><\<close> and \<^verbatim>\<open>>\<close> apply to a string operand: the
  whole trimmed string has to be a numeric literal, and the empty string is zero.\<close>

definition string_to_number :: "jsstring \<Rightarrow> jsnum" where
  "string_to_number s =
     (let t = trim s in
      if t = [] then Fin 0
      else if take 2 t = U ''0x'' \<or> take 2 t = U ''0X'' then read_radix 16 (drop 2 t)
      else if take 2 t = U ''0o'' \<or> take 2 t = U ''0O'' then read_radix 8 (drop 2 t)
      else if take 2 t = U ''0b'' \<or> take 2 t = U ''0B'' then read_radix 2 (drop 2 t)
      else (let (sg, u) = read_sign t in
            if u = Infinity_str then (if sg < 0 then NInf else PInf)
            else (case read_decimal u of
                    Some (v, []) \<Rightarrow> Fin (sg * v)
                  | _ \<Rightarrow> NaN)))"

subsection \<open>Conversions of values\<close>

text \<open>
  Converting an object to a primitive calls its \<^verbatim>\<open>toString\<close>. A data object inherits the
  method, unless it has a key \<^verbatim>\<open>toString\<close> of its own: that value is not callable and the
  conversion throws a TypeError. An array converts by joining the conversions of its
  elements. A built-in converts without throwing: a function prints its source text,
  \<^verbatim>\<open>Object.prototype\<close> prints \<^verbatim>\<open>[object Object]\<close>, \<^verbatim>\<open>Array.prototype\<close> and
  \<^verbatim>\<open>String.prototype\<close> print the empty string, \<^verbatim>\<open>Number.prototype\<close> prints \<^verbatim>\<open>0\<close> and
  \<^verbatim>\<open>Boolean.prototype\<close> prints \<^verbatim>\<open>false\<close>.
\<close>

fun to_string_throws :: "jsval \<Rightarrow> bool" where
  "to_string_throws (JObj fs) = List.member (map fst fs) (U ''toString'')"
| "to_string_throws (JArr xs) = list_ex to_string_throws xs"
| "to_string_throws _ = False"

text \<open>
  \<^verbatim>\<open>parseFloat(v)\<close> converts \<open>v\<close> to a string and reads a prefix of it. A number prints
  to a string that reads back as itself. An array prints as its elements joined by commas
  (\<^verbatim>\<open>null\<close> and \<^verbatim>\<open>undefined\<close> as empty strings), and a comma ends every literal, so only
  the first element counts. \<^verbatim>\<open>undefined\<close>, \<^verbatim>\<open>null\<close>, \<^verbatim>\<open>true\<close>, \<^verbatim>\<open>false\<close> and
  \<^verbatim>\<open>[object Object]\<close> start no literal.
\<close>

fun parseFloat_val :: "jsval \<Rightarrow> jsnum" where
  "parseFloat_val (JNum n) = n"
| "parseFloat_val (JStr s) = parseFloat_str s"
| "parseFloat_val (JArr []) = NaN"
| "parseFloat_val (JArr (x # xs)) = parseFloat_val x"
| "parseFloat_val (JProto NumberP) = Fin 0"
| "parseFloat_val _ = NaN"

definition parseFloat :: "jsval \<Rightarrow> error + jsnum" where
  "parseFloat v = (if to_string_throws v then Inl TypeError else Inr (parseFloat_val v))"

text \<open>
  ToNumber, applied by \<^verbatim>\<open><\<close> and \<^verbatim>\<open>>\<close> to an operand compared with a number. An array
  is converted through its string: the empty array is zero, a one-element array is its
  element (\<^verbatim>\<open>null\<close> and \<^verbatim>\<open>undefined\<close> print as the empty string there), and a longer one
  contains a comma. \<^verbatim>\<open>String.prototype\<close>, \<^verbatim>\<open>Number.prototype\<close> and \<^verbatim>\<open>Boolean.prototype\<close>
  convert through their \<^verbatim>\<open>valueOf\<close> (the empty string, \<^verbatim>\<open>0\<close> and \<^verbatim>\<open>false\<close>), the other
  built-ins through their string.
\<close>

fun toNumber_val :: "jsval \<Rightarrow> jsnum" where
  "toNumber_val JUndefined = NaN"
| "toNumber_val JNull = Fin 0"
| "toNumber_val (JBool b) = Fin (if b then 1 else 0)"
| "toNumber_val (JNum n) = n"
| "toNumber_val (JStr s) = string_to_number s"
| "toNumber_val (JArr []) = Fin 0"
| "toNumber_val (JArr [x]) =
     (case x of
        JUndefined \<Rightarrow> Fin 0
      | JNull \<Rightarrow> Fin 0
      | JBool _ \<Rightarrow> NaN
      | JProto BooleanP \<Rightarrow> NaN
      | _ \<Rightarrow> toNumber_val x)"
| "toNumber_val (JArr (x # y # zs)) = NaN"
| "toNumber_val (JObj _) = NaN"
| "toNumber_val (JMember _ _) = NaN"
| "toNumber_val (JProto ObjectP) = NaN"
| "toNumber_val (JProto _) = Fin 0"

definition toNumber :: "jsval \<Rightarrow> error + jsnum" where
  "toNumber v = (if to_string_throws v then Inl TypeError else Inr (toNumber_val v))"

subsection \<open>Property access\<close>

text \<open>
  The string-named members of the five prototypes, as in ECMAScript 2023 with its
  annex B. \<^verbatim>\<open>__proto__\<close> is an accessor of \<^verbatim>\<open>Object.prototype\<close> and is treated apart.
\<close>

fun proto_members :: "proto \<Rightarrow> jsstring list" where
  "proto_members ObjectP = map U
     [''constructor'', ''__defineGetter__'', ''__defineSetter__'', ''hasOwnProperty'',
      ''__lookupGetter__'', ''__lookupSetter__'', ''isPrototypeOf'', ''propertyIsEnumerable'',
      ''toString'', ''valueOf'', ''toLocaleString'']"
| "proto_members ArrayP = map U
     [''constructor'', ''at'', ''concat'', ''copyWithin'', ''fill'', ''find'', ''findIndex'',
      ''findLast'', ''findLastIndex'', ''lastIndexOf'', ''pop'', ''push'', ''reverse'', ''shift'',
      ''unshift'', ''slice'', ''sort'', ''splice'', ''includes'', ''indexOf'', ''join'', ''keys'',
      ''entries'', ''values'', ''forEach'', ''filter'', ''flat'', ''flatMap'', ''map'', ''every'',
      ''some'', ''reduce'', ''reduceRight'', ''toReversed'', ''toSorted'', ''toSpliced'', ''with'',
      ''toLocaleString'', ''toString'']"
| "proto_members StringP = map U
     [''constructor'', ''anchor'', ''at'', ''big'', ''blink'', ''bold'', ''charAt'',
      ''charCodeAt'', ''codePointAt'', ''concat'', ''endsWith'', ''fontcolor'', ''fontsize'',
      ''fixed'', ''includes'', ''indexOf'', ''italics'', ''lastIndexOf'', ''link'',
      ''localeCompare'', ''match'', ''matchAll'', ''normalize'', ''padEnd'', ''padStart'',
      ''repeat'', ''replace'', ''replaceAll'', ''search'', ''slice'', ''small'', ''split'',
      ''strike'', ''sub'', ''substr'', ''substring'', ''sup'', ''startsWith'', ''toString'',
      ''trim'', ''trimStart'', ''trimLeft'', ''trimEnd'', ''trimRight'', ''toLocaleLowerCase'',
      ''toLocaleUpperCase'', ''toLowerCase'', ''toUpperCase'', ''valueOf'']"
| "proto_members NumberP = map U
     [''constructor'', ''toExponential'', ''toFixed'', ''toPrecision'', ''toString'',
      ''valueOf'', ''toLocaleString'']"
| "proto_members BooleanP = map U [''constructor'', ''toString'', ''valueOf'']"

text \<open>The value of a member. \<^verbatim>\<open>trimLeft\<close> and \<^verbatim>\<open>trimRight\<close> are the functions
  \<^verbatim>\<open>trimStart\<close> and \<^verbatim>\<open>trimEnd\<close> under a second name.\<close>

definition member_value :: "proto \<Rightarrow> jsstring \<Rightarrow> jsval" where
  "member_value p k =
     (if p = StringP \<and> k = U ''trimLeft'' then JMember StringP (U ''trimStart'')
      else if p = StringP \<and> k = U ''trimRight'' then JMember StringP (U ''trimEnd'')
      else JMember p k)"

text \<open>
  What a value whose prototype is \<open>p\<close> inherits under the name \<open>k\<close>: its prototype
  itself for \<^verbatim>\<open>__proto__\<close>, a member of \<open>p\<close>, else a member of \<^verbatim>\<open>Object.prototype\<close>, else
  \<^verbatim>\<open>undefined\<close>.
\<close>

definition proto_lookup :: "proto \<Rightarrow> jsstring \<Rightarrow> jsval" where
  "proto_lookup p k =
     (if k = U ''__proto__'' then JProto p
      else if List.member (proto_members p) k then member_value p k
      else if List.member (proto_members ObjectP) k then JMember ObjectP k
      else JUndefined)"

text \<open>\<^verbatim>\<open>o[k]\<close> on an object with the fields \<open>fs\<close>: the key of its own, else what it
  inherits from \<^verbatim>\<open>Object.prototype\<close>. An object lists each of its keys once.\<close>

definition obj_get :: "(jsstring \<times> jsval) list \<Rightarrow> jsstring \<Rightarrow> jsval" where
  "obj_get fs k = (case map_of fs k of Some x \<Rightarrow> x | None \<Rightarrow> proto_lookup ObjectP k)"

text \<open>
  \<^verbatim>\<open>v[k]\<close> and \<^verbatim>\<open>v.k\<close>: a TypeError on \<^verbatim>\<open>undefined\<close> and \<^verbatim>\<open>null\<close>; otherwise the
  property of its own (a field of an object; the length or an element of an array or a
  string), else what the value inherits. A prototype object is read in the same way
  (\<^verbatim>\<open>Array.prototype\<close> and \<^verbatim>\<open>String.prototype\<close> have the length 0, and the prototype of
  \<^verbatim>\<open>Object.prototype\<close> is \<^verbatim>\<open>null\<close>).

  The loaders read properties of rows and items only, and those come from a parser or a
  database driver, which produce no function. The properties of a built-in function are
  not modelled: the model answers \<^verbatim>\<open>undefined\<close> there.
\<close>

definition array_index :: "jsstring \<Rightarrow> nat option" where
  "array_index k =
     (if k \<noteq> [] \<and> list_all is_digit k \<and> (k = [48] \<or> hd k \<noteq> 48) then Some (digits_val k)
      else None)"

definition getProp :: "jsval \<Rightarrow> jsstring \<Rightarrow> error + jsval" where
  "getProp v k = (case v of
      JUndefined \<Rightarrow> Inl TypeError
    | JNull \<Rightarrow> Inl TypeError
    | JBool _ \<Rightarrow> Inr (proto_lookup BooleanP k)
    | JNum _ \<Rightarrow> Inr (proto_lookup NumberP k)
    | JStr s \<Rightarrow>
        if k = U ''length'' then Inr (JNum (Fin (of_nat (length s))))
        else (case array_index k of
                None \<Rightarrow> Inr (proto_lookup StringP k)
              | Some i \<Rightarrow> if i < length s then Inr (JStr [s ! i]) else Inr JUndefined)
    | JArr xs \<Rightarrow>
        if k = U ''length'' then Inr (JNum (Fin (of_nat (length xs))))
        else (case array_index k of
                None \<Rightarrow> Inr (proto_lookup ArrayP k)
              | Some i \<Rightarrow> if i < length xs then Inr (xs ! i) else Inr JUndefined)
    | JObj fs \<Rightarrow> Inr (obj_get fs k)
    | JProto p \<Rightarrow>
        if k = U ''__proto__'' then Inr (if p = ObjectP then JNull else JProto ObjectP)
        else if (p = ArrayP \<or> p = StringP) \<and> k = U ''length'' then Inr (JNum (Fin 0))
        else Inr (proto_lookup p k)
    | JMember _ _ \<Rightarrow> Inr JUndefined)"

section \<open>The calendar normalizer\<close>

definition NIAN :: nat where "NIAN = 24180"
definition YUE :: nat where "YUE = 26376"

text \<open>
  The first pattern of \<^verbatim>\<open>convertROCtoAD\<close>, \<^verbatim>\<open>(\d+)\<close> U+5E74 \<^verbatim>\<open>(\d+)\<close> U+6708, at the head of
  \<open>s\<close>: a run of digits, the year sign U+5E74, a run of digits, the month sign U+6708.
  The two signs are no digits, so each greedy run is the whole run of digits.
\<close>

definition match1_at :: "jsstring \<Rightarrow> (jsstring \<times> jsstring) option" where
  "match1_at s =
     (let d1 = takeWhile is_digit s in
      if d1 = [] then None
      else (case dropWhile is_digit s of
              [] \<Rightarrow> None
            | c # r \<Rightarrow>
                if c \<noteq> NIAN then None
                else (let d2 = takeWhile is_digit r in
                      if d2 = [] then None
                      else (case dropWhile is_digit r of
                              [] \<Rightarrow> None
                            | c2 # _ \<Rightarrow> if c2 = YUE then Some (d1, d2) else None))))"

text \<open>The regular expression is not anchored: the leftmost start that matches wins.\<close>

fun match1 :: "jsstring \<Rightarrow> (jsstring \<times> jsstring) option" where
  "match1 [] = None"
| "match1 (c # cs) = (case match1_at (c # cs) of Some g \<Rightarrow> Some g | None \<Rightarrow> match1 cs)"

text \<open>\<^verbatim>\<open>/(\d{3})(\d{2})/\<close>: the leftmost five digits in a row.\<close>

definition match2_at :: "jsstring \<Rightarrow> (jsstring \<times> jsstring) option" where
  "match2_at s =
     (if 5 \<le> length s \<and> list_all is_digit (take 5 s) then Some (take 3 s, take 2 (drop 3 s))
      else None)"

fun match2 :: "jsstring \<Rightarrow> (jsstring \<times> jsstring) option" where
  "match2 [] = None"
| "match2 (c # cs) = (case match2_at (c # cs) of Some g \<Rightarrow> Some g | None \<Rightarrow> match2 cs)"

text \<open>\<^verbatim>\<open>convertROCtoAD\<close> on a string: the long form first, then the compact form, else
  \<^verbatim>\<open>null\<close>.\<close>

definition convertROCtoAD_str :: "jsstring \<Rightarrow> jsval" where
  "convertROCtoAD_str rocDate =
     (case match1 rocDate of
        Some (y, m) \<Rightarrow> JStr (show_nat (digits_val y + 1911) @ [45] @ padStart2 m)
      | None \<Rightarrow>
          (case match2 rocDate of
             Some (y, m) \<Rightarrow> JStr (show_nat (digits_val y + 1911) @ [45] @ m)
           | None \<Rightarrow> JNull))"

text \<open>\<^verbatim>\<open>rocDate.match\<close> is a function only when \<open>rocDate\<close> is a string or
  \<^verbatim>\<open>String.prototype\<close>, which matches as the empty string does; on every other value the
  call throws a TypeError.\<close>

definition convertROCtoAD :: "jsval \<Rightarrow> error + jsval" where
  "convertROCtoAD rocDate =
     (case rocDate of
        JStr s \<Rightarrow> Inr (convertROCtoAD_str s)
      | JProto StringP \<Rightarrow> Inr (convertROCtoAD_str [])
      | _ \<Rightarrow> Inl TypeError)"

text \<open>\<^verbatim>\<open>/^\d{4}-\d{2}/\<close>\<close>

definition gregorian_prefix :: "jsstring \<Rightarrow> bool" where
  "gregorian_prefix s =
     (7 \<le> length s \<and> list_all is_digit (take 4 s) \<and> s ! 4 = 45 \<and> list_all is_digit (take 2 (drop 5 s)))"

section \<open>Rows, alias lists and options\<close>

text \<open>The column names of the government CSV files, as code units.\<close>

definition K_tradeYM :: jsstring where "K_tradeYM = [20132, 26131, 24180, 26376]"
definition K_tradeYMD :: jsstring where "K_tradeYMD = [20132, 26131, 24180, 26376, 26085]"
definition K_unitPriceSqm :: jsstring where
  "K_unitPriceSqm = [21934, 20729, 20803, 24179, 26041, 20844, 23610]"
definition K_unitPrice :: jsstring where "K_unitPrice = [21934, 20729]"
definition K_lat :: jsstring where "K_lat = [32239, 24230]"
definition K_lng :: jsstring where "K_lng = [32147, 24230]"
definition K_buildingArea :: jsstring where
  "K_buildingArea = [24314, 29289, 31227, 36681, 32317, 38754, 31309, 22378]"
definition K_landArea :: jsstring where
  "K_landArea = [22303, 22320, 31227, 36681, 32317, 38754, 31309, 22378]"
definition K_subject :: jsstring where "K_subject = [20132, 26131, 27161, 30340]"
definition K_doorplate :: jsstring where
  "K_doorplate = [22303, 22320, 20301, 32622, 24314, 29289, 38272, 29260]"
definition K_buildingForm :: jsstring where "K_buildingForm = [24314, 29289, 22411, 24907]"
definition K_layoutForm :: jsstring where
  "K_layoutForm = [24314, 29289, 29694, 27841, 26684, 23616, 45, 24314, 29289, 22411, 24907]"
definition K_totalYuan :: jsstring where "K_totalYuan = [32317, 20729, 20803]"
definition K_tradePrice :: jsstring where "K_tradePrice = [20132, 26131, 20729, 26684]"
definition K_county :: jsstring where "K_county = [32291, 24066]"
definition K_township :: jsstring where "K_township = [37129, 37806, 24066, 21312]"

text \<open>The canonical record that every loader pushes. The document loader copies the
  fields of its input, so each field is a value.\<close>

record canon =
  position :: jsval
  price :: jsval
  yearMonth :: jsval
  area :: jsval
  address :: jsval
  buildingType :: jsval
  totalPrice :: jsval

text \<open>What the body of the loop does with one row, when it does not throw:
  \<^verbatim>\<open>skipped++; continue\<close> or \<^verbatim>\<open>processedData.push(...)\<close>.\<close>

datatype outcome = Skipped | Accepted canon

text \<open>\<^verbatim>\<open>mapping\<close>: one ordered alias list for each canonical field.\<close>

record aliases =
  a_yearMonth :: "jsstring list"
  a_price :: "jsstring list"
  a_latitude :: "jsstring list"
  a_longitude :: "jsstring list"
  a_area :: "jsstring list"
  a_address :: "jsstring list"
  a_buildingType :: "jsstring list"
  a_totalPrice :: "jsstring list"

definition defaultMapping :: aliases where
  "defaultMapping = \<lparr>
     a_yearMonth = [K_tradeYM, K_tradeYMD, U ''yearMonth'', U ''date''],
     a_price = [K_unitPriceSqm, K_unitPrice, U ''price'', U ''unitPrice''],
     a_latitude = [K_lat, U ''latitude'', U ''lat''],
     a_longitude = [K_lng, U ''longitude'', U ''lng'', U ''lon''],
     a_area = [K_buildingArea, K_landArea, U ''area''],
     a_address = [K_subject, K_doorplate, U ''address''],
     a_buildingType = [K_buildingForm, K_layoutForm, U ''buildingType''],
     a_totalPrice = [K_totalYuan, K_tradePrice, U ''totalPrice'']\<rparr>"

text \<open>\<^verbatim>\<open>fieldMapping\<close>: the caller's overrides; \<open>None\<close> is a key that is not given.\<close>

record fieldOverride =
  o_yearMonth :: "jsstring list option"
  o_price :: "jsstring list option"
  o_latitude :: "jsstring list option"
  o_longitude :: "jsstring list option"
  o_area :: "jsstring list option"
  o_address :: "jsstring list option"
  o_buildingType :: "jsstring list option"
  o_totalPrice :: "jsstring list option"

definition noOverride :: fieldOverride where
  "noOverride = \<lparr>o_yearMonth = None, o_price = None, o_latitude = None, o_longitude = None,
     o_area = None, o_address = None, o_buildingType = None, o_totalPrice = None\<rparr>"

definition orDefault :: "'a option \<Rightarrow> 'a \<Rightarrow> 'a" where
  "orDefault x d = (case x of None \<Rightarrow> d | Some v \<Rightarrow> v)"

text \<open>\<^verbatim>\<open>{ ...defaultMapping, ...fieldMapping }\<close>\<close>

definition mergeMapping :: "fieldOverride \<Rightarrow> aliases" where
  "mergeMapping f = \<lparr>
     a_yearMonth = orDefault (o_yearMonth f) (a_yearMonth defaultMapping),
     a_price = orDefault (o_price f) (a_price defaultMapping),
     a_latitude = orDefault (o_latitude f) (a_latitude defaultMapping),
     a_longitude = orDefault (o_longitude f) (a_longitude defaultMapping),
     a_area = orDefault (o_area f) (a_area defaultMapping),
     a_address = orDefault (o_address f) (a_address defaultMapping),
     a_buildingType = orDefault (o_buildingType f) (a_buildingType defaultMapping),
     a_totalPrice = orDefault (o_totalPrice f) (a_totalPrice defaultMapping)\<rparr>"

text \<open>\<^verbatim>\<open>options\<close>: numeric bounds and the allow-list; \<open>None\<close> is a key that is not given
  and takes the default of the destructuring.\<close>

record options =
  minPrice :: "jsnum option"
  maxPrice :: "jsnum option"
  buildingTypes :: "jsval list option"
  fieldMapping :: fieldOverride

definition defaultOptions :: options where
  "defaultOptions = \<lparr>minPrice = None, maxPrice = None, buildingTypes = None,
     fieldMapping = noOverride\<rparr>"

definition minPriceOf :: "options \<Rightarrow> jsnum" where
  "minPriceOf opts = orDefault (minPrice opts) (Fin 100000)"

definition maxPriceOf :: "options \<Rightarrow> jsnum" where
  "maxPriceOf opts = orDefault (maxPrice opts) (Fin 2000000)"

definition buildingTypesOf :: "options \<Rightarrow> jsval list" where
  "buildingTypesOf opts = orDefault (buildingTypes opts) []"

section \<open>The loop shared by the loaders\<close>

text \<open>
  Each loader runs \<^verbatim>\<open>for (const record of records) { try { ... } catch { skipped++ } }\<close>
  over two accumulators. \<open>body\<close> is the block inside \<^verbatim>\<open>try\<close>; an exception is the value
  \<open>Inl e\<close>, which the \<^verbatim>\<open>catch\<close> turns into one more skipped row. The loaders return
  \<^verbatim>\<open>processedData\<close> and log the two counts; the model returns the records and \<^verbatim>\<open>skipped\<close>.
\<close>

fun run_rows :: "('r \<Rightarrow> error + outcome) \<Rightarrow> 'r list \<Rightarrow> canon list \<times> nat \<Rightarrow> canon list \<times> nat" where
  "run_rows body [] acc = acc"
| "run_rows body (r # rs) (processedData, skipped) =
     (case body r of
        Inr (Accepted c) \<Rightarrow> run_rows body rs (processedData @ [c], skipped)
      | Inr Skipped \<Rightarrow> run_rows body rs (processedData, skipped + 1)
      | Inl e \<Rightarrow> run_rows body rs (processedData, skipped + 1))"

section \<open>The CSV loader: \<^verbatim>\<open>processCSVRecords\<close>\<close>

text \<open>\<^verbatim>\<open>getValue\<close>, the closure over \<^verbatim>\<open>record\<close>: the first alias whose value is neither
  \<^verbatim>\<open>undefined\<close>, \<^verbatim>\<open>null\<close> nor the empty string, else \<^verbatim>\<open>null\<close>.\<close>

fun getValue :: "jsval \<Rightarrow> jsstring list \<Rightarrow> error + jsval" where
  "getValue record [] = Inr JNull"
| "getValue record (name # fieldNames) =
     (case getProp record name of
        Inl e \<Rightarrow> Inl e
      | Inr v \<Rightarrow> if v \<noteq> JUndefined \<and> v \<noteq> JNull \<and> v \<noteq> JStr [] then Inr v
                 else getValue record fieldNames)"

text \<open>
  Step 2, the date. \<open>None\<close> is the \<^verbatim>\<open>else\<close> branch (\<^verbatim>\<open>skipped++; continue\<close>). On \<^verbatim>\<open>null\<close>
  the optional calls give \<^verbatim>\<open>undefined\<close>; on a number, a boolean, an object or a function
  \<^verbatim>\<open>rawDate.includes\<close> is no function; an array (and \<^verbatim>\<open>Array.prototype\<close>, which is
  empty) has \<^verbatim>\<open>includes\<close> but no \<^verbatim>\<open>match\<close>; \<^verbatim>\<open>String.prototype\<close> answers as the empty
  string does.
\<close>

definition csvYearMonth :: "jsval \<Rightarrow> error + jsval option" where
  "csvYearMonth rawDate = (case rawDate of
      JUndefined \<Rightarrow> Inr None
    | JNull \<Rightarrow> Inr None
    | JStr s \<Rightarrow>
        if List.member s NIAN then bindE (convertROCtoAD rawDate) (\<lambda>ym. Inr (Some ym))
        else if gregorian_prefix s then Inr (Some (JStr (take 7 s)))
        else Inr None
    | JArr xs \<Rightarrow>
        if arr_includes xs (JStr [NIAN]) then bindE (convertROCtoAD rawDate) (\<lambda>ym. Inr (Some ym))
        else Inl TypeError
    | JProto StringP \<Rightarrow> Inr None
    | _ \<Rightarrow> Inl TypeError)"

text \<open>Step 3, the unit price: the direct field, and the quotient of total price and
  area when the direct field is zero or NaN.\<close>

definition csvUnitPrice :: "aliases \<Rightarrow> jsval \<Rightarrow> error + jsnum" where
  "csvUnitPrice mapping record =
     bindE (getValue record (a_price mapping)) (\<lambda>pv.
     bindE (parseFloat pv) (\<lambda>unitPrice.
       if \<not> num_truthy unitPrice then
         bindE (getValue record (a_totalPrice mapping)) (\<lambda>tv.
         bindE (parseFloat tv) (\<lambda>t.
         bindE (getValue record (a_area mapping)) (\<lambda>av.
         bindE (parseFloat av) (\<lambda>a.
           (let totalPrice = num_or0 t; area = num_or0 a in
            if num_lt (Fin 0) totalPrice \<and> num_lt (Fin 0) area
            then Inr (num_div totalPrice area) else Inr unitPrice)))))
       else Inr unitPrice))"

text \<open>Steps 5 to 7, after the price has passed the bounds.\<close>

definition csvFinish :: "aliases \<Rightarrow> jsval list \<Rightarrow> jsval \<Rightarrow> jsnum \<Rightarrow> jsval \<Rightarrow> error + outcome" where
  "csvFinish mapping bTypes ymv unitPrice record =
     bindE (getValue record (a_latitude mapping)) (\<lambda>latv.
     bindE (parseFloat latv) (\<lambda>lat.
     bindE (getValue record (a_longitude mapping)) (\<lambda>lngv.
     bindE (parseFloat lngv) (\<lambda>lng.
       if \<not> num_truthy lat \<or> \<not> num_truthy lng then
         \<comment> \<open>the warning prints \<^verbatim>\<open>getValue(mapping.address)\<close> in a template literal\<close>
         bindE (getValue record (a_address mapping)) (\<lambda>ad.
           if to_string_throws ad then Inl TypeError else Inr Skipped)
       else
         bindE (getValue record (a_buildingType mapping)) (\<lambda>bt.
           if bTypes \<noteq> [] \<and> \<not> arr_includes bTypes bt then Inr Skipped
           else
             bindE (getValue record (a_area mapping)) (\<lambda>av.
             bindE (parseFloat av) (\<lambda>a.
             bindE (getValue record (a_address mapping)) (\<lambda>ad.
             bindE (getValue record (a_totalPrice mapping)) (\<lambda>tv.
             bindE (parseFloat tv) (\<lambda>t.
               Inr (Accepted \<lparr>
                 position = JArr [JNum lng, JNum lat],
                 price = JNum unitPrice,
                 yearMonth = ymv,
                 area = JNum (num_or0 a),
                 address = js_or ad (JStr []),
                 buildingType = js_or bt (JStr []),
                 totalPrice = JNum (num_or0 t)\<rparr>)))))))))))"

text \<open>The block inside \<^verbatim>\<open>try\<close>.\<close>

definition csvRecord :: "aliases \<Rightarrow> jsnum \<Rightarrow> jsnum \<Rightarrow> jsval list \<Rightarrow> jsval \<Rightarrow> error + outcome" where
  "csvRecord mapping minP maxP bTypes record =
     bindE (getValue record (a_yearMonth mapping)) (\<lambda>rawDate.
     bindE (csvYearMonth rawDate) (\<lambda>ym.
       case ym of
         None \<Rightarrow> Inr Skipped
       | Some ymv \<Rightarrow>
           bindE (csvUnitPrice mapping record) (\<lambda>unitPrice.
             if \<not> num_truthy unitPrice \<or> num_lt unitPrice minP \<or> num_lt maxP unitPrice
             then Inr Skipped
             else csvFinish mapping bTypes ymv unitPrice record)))"

definition processCSVRecords :: "jsval list \<Rightarrow> options \<Rightarrow> canon list \<times> nat" where
  "processCSVRecords records opts =
     run_rows (csvRecord (mergeMapping (fieldMapping opts)) (minPriceOf opts) (maxPriceOf opts)
                 (buildingTypesOf opts))
       records ([], 0)"

section \<open>The database loader: \<^verbatim>\<open>processDatabaseRecords\<close>\<close>

text \<open>\<^verbatim>\<open>record.a || record.b || ...\<close>: the first truthy property, else the last one.\<close>

fun orProps :: "jsval \<Rightarrow> jsstring list \<Rightarrow> error + jsval" where
  "orProps record [] = Inr JUndefined"
| "orProps record [k] = getProp record k"
| "orProps record (k # ks) =
     bindE (getProp record k) (\<lambda>v. if truthy v then Inr v else orProps record ks)"

text \<open>
  The date of a row without \<^verbatim>\<open>year_month\<close> is printed from
  \<^verbatim>\<open>new Date(record.transaction_date)\<close> in the local time zone of the process. The
  printing function \<open>fmtDate\<close> is a parameter of the model; the conversion of the
  argument to a primitive throws as every such conversion does.
\<close>

definition dbYearMonth :: "(jsval \<Rightarrow> jsstring) \<Rightarrow> jsval \<Rightarrow> error + jsval" where
  "dbYearMonth fmtDate record =
     bindE (getProp record (U ''year_month'')) (\<lambda>ym.
       if truthy ym then Inr ym
       else bindE (getProp record (U ''transaction_date'')) (\<lambda>td.
         if truthy td then (if to_string_throws td then Inl TypeError else Inr (JStr (fmtDate td)))
         else Inr JUndefined))"

definition dbRecord ::
  "(jsval \<Rightarrow> jsstring) \<Rightarrow> jsnum \<Rightarrow> jsnum \<Rightarrow> jsval list \<Rightarrow> jsval \<Rightarrow> error + outcome" where
  "dbRecord fmtDate minP maxP bTypes record =
     bindE (orProps record [U ''unit_price'', U ''price'']) (\<lambda>pv.
     bindE (parseFloat pv) (\<lambda>unitPrice.
       if \<not> num_truthy unitPrice \<or> num_lt unitPrice minP \<or> num_lt maxP unitPrice
       then Inr Skipped
       else
         bindE (orProps record [U ''latitude'', U ''lat'']) (\<lambda>latv.
         bindE (parseFloat latv) (\<lambda>lat.
         bindE (orProps record [U ''longitude'', U ''lng'', U ''lon'']) (\<lambda>lngv.
         bindE (parseFloat lngv) (\<lambda>lng.
           if \<not> num_truthy lat \<or> \<not> num_truthy lng then Inr Skipped
           else
             bindE (getProp record (U ''building_type'')) (\<lambda>bt.
               if bTypes \<noteq> [] \<and> \<not> arr_includes bTypes bt then Inr Skipped
               else
                 bindE (dbYearMonth fmtDate record) (\<lambda>ymv.
                 bindE (getProp record (U ''area'')) (\<lambda>av.
                 bindE (parseFloat av) (\<lambda>a.
                 bindE (getProp record (U ''address'')) (\<lambda>ad.
                 bindE (getProp record (U ''total_price'')) (\<lambda>tv.
                 bindE (parseFloat tv) (\<lambda>t.
                   Inr (Accepted \<lparr>
                     position = JArr [JNum lng, JNum lat],
                     price = JNum unitPrice,
                     yearMonth = ymv,
                     area = JNum (num_or0 a),
                     address = js_or ad (JStr []),
                     buildingType = js_or bt (JStr []),
                     totalPrice = JNum (num_or0 t)\<rparr>))))))))))))))"

definition processDatabaseRecords ::
  "(jsval \<Rightarrow> jsstring) \<Rightarrow> jsval list \<Rightarrow> options \<Rightarrow> canon list \<times> nat" where
  "processDatabaseRecords fmtDate records opts =
     run_rows (dbRecord fmtDate (minPriceOf opts) (maxPriceOf opts) (buildingTypesOf opts))
       records ([], 0)"

section \<open>The document loader: \<^verbatim>\<open>validateAndProcessData\<close>\<close>

text \<open>
  \<^verbatim>\<open>item.price < minPrice\<close> compares a value with a number: the value is converted with
  ToNumber, once for each comparison and with the same result.
\<close>

definition docRecord :: "jsnum \<Rightarrow> jsnum \<Rightarrow> jsval list \<Rightarrow> jsval \<Rightarrow> error + outcome" where
  "docRecord minP maxP bTypes item =
     bindE (getProp item (U ''position'')) (\<lambda>pos.
       if \<not> truthy pos \<or> (case pos of JArr xs \<Rightarrow> length xs \<noteq> 2 | _ \<Rightarrow> True) then Inr Skipped
       else
         bindE (getProp item (U ''price'')) (\<lambda>p.
         bindE (getProp item (U ''yearMonth'')) (\<lambda>ymv.
           if \<not> truthy p \<or> \<not> truthy ymv then Inr Skipped
           else
             bindE (toNumber p) (\<lambda>pn.
               if num_lt pn minP \<or> num_lt maxP pn then Inr Skipped
               else
                 bindE (getProp item (U ''buildingType'')) (\<lambda>bt.
                   if bTypes \<noteq> [] \<and> \<not> arr_includes bTypes bt then Inr Skipped
                   else
                     bindE (getProp item (U ''area'')) (\<lambda>av.
                     bindE (getProp item (U ''address'')) (\<lambda>ad.
                     bindE (getProp item (U ''totalPrice'')) (\<lambda>tv.
                       Inr (Accepted \<lparr>
                         position = pos,
                         price = p,
                         yearMonth = ymv,
                         area = js_or av (JNum (Fin 0)),
                         address = js_or ad (JStr []),
                         buildingType = js_or bt (JStr []),
                         totalPrice = js_or tv (JNum (Fin 0))\<rparr>)))))))))"

text \<open>The loader throws before the loop when \<^verbatim>\<open>data\<close> is not an array.\<close>

definition validateAndProcessData :: "jsval \<Rightarrow> options \<Rightarrow> error + canon list \<times> nat" where
  "validateAndProcessData data opts = (case data of
      JArr items \<Rightarrow>
        Inr (run_rows (docRecord (minPriceOf opts) (maxPriceOf opts) (buildingTypesOf opts))
               items ([], 0))
    | _ \<Rightarrow> Inl FormatError)"

section \<open>The CSV processor of \<^verbatim>\<open>data-processor.js\<close>: \<^verbatim>\<open>processRealEstateData\<close>\<close>

text \<open>
  \<^verbatim>\<open>processRealEstateData\<close> parses the file itself (\<^verbatim>\<open>csv-parse\<close> with \<^verbatim>\<open>columns: true\<close>),
  so each of its rows is an object whose values are strings. The model starts from the
  parsed rows and ends with the loop: reading the file and writing the result are left
  out. On such a row only the date stage can throw, before any random number is drawn.
\<close>

type_synonym csvrow = "(jsstring \<times> jsstring) list"

definition row_obj :: "csvrow \<Rightarrow> jsval" where
  "row_obj r = JObj (map (\<lambda>(k, s). (k, JStr s)) r)"

text \<open>
  \<^verbatim>\<open>Math.random\<close> is a source of numbers in \<open>[0, 1)\<close>: the stream \<open>rand\<close> and the index
  of the next draw. \<^verbatim>\<open>geocodeAddress\<close> ignores the address and draws twice, the latitude
  first.
\<close>

definition geocodeAddress :: "(nat \<Rightarrow> rat) \<Rightarrow> nat \<Rightarrow> (jsnum \<times> jsnum) \<times> nat" where
  "geocodeAddress rand i =
     ((Fin (25033 / 1000 + (rand i - 1 / 2) * (1 / 10)),
       Fin (1215654 / 10000 + (rand (i + 1) - 1 / 2) * (1 / 10))),
      i + 2)"

text \<open>\<^verbatim>\<open>[a, b, c].filter(Boolean).join('')\<close> on the fields of a row of strings.\<close>

fun joinTruthy :: "jsval list \<Rightarrow> jsstring" where
  "joinTruthy [] = []"
| "joinTruthy (JStr s # vs) = s @ joinTruthy vs"
| "joinTruthy (_ # vs) = joinTruthy vs"

text \<open>Step 2 and step 3 of the loop: the unit price before the bounds are checked.\<close>

definition realEstateUnitPrice :: "jsval \<Rightarrow> error + jsnum" where
  "realEstateUnitPrice record =
     bindE (getProp record K_unitPriceSqm) (\<lambda>v1.
     bindE (parseFloat v1) (\<lambda>p1.
     bindE (if num_truthy p1 then Inr p1
            else bindE (getProp record K_unitPrice) parseFloat) (\<lambda>unitPrice.
       if \<not> num_truthy unitPrice then
         bindE (orProps record [K_totalYuan, K_tradePrice]) (\<lambda>tv.
         bindE (parseFloat tv) (\<lambda>t.
         bindE (orProps record [K_buildingArea, K_landArea]) (\<lambda>av.
         bindE (parseFloat av) (\<lambda>a.
           (let totalPrice = num_or0 t; area = num_or0 a in
            if num_lt (Fin 0) totalPrice \<and> num_lt (Fin 0) area
            then Inr (num_div totalPrice area) else Inr unitPrice)))))
       else Inr unitPrice)))"

text \<open>Step 6, the coordinates: those of the row when both columns are non-empty, else
  those of \<^verbatim>\<open>geocodeAddress\<close>. The result carries the index of the next draw.\<close>

definition realEstateCoords ::
  "(nat \<Rightarrow> rat) \<Rightarrow> nat \<Rightarrow> jsval \<Rightarrow> error + (jsnum \<times> jsnum) \<times> nat" where
  "realEstateCoords rand i record =
     bindE (getProp record K_lat) (\<lambda>latv.
     bindE (getProp record K_lng) (\<lambda>lngv.
       if truthy latv \<and> truthy lngv
       then bindE (parseFloat latv) (\<lambda>lat.
            bindE (parseFloat lngv) (\<lambda>lng. Inr ((lat, lng), i)))
       else Inr (geocodeAddress rand i)))"

text \<open>Step 7, the record.\<close>

definition realEstateFinish ::
  "jsval \<Rightarrow> jsval \<Rightarrow> jsnum \<Rightarrow> jsval \<Rightarrow> jsstring \<Rightarrow> (jsnum \<times> jsnum) \<times> nat
     \<Rightarrow> error + outcome \<times> nat" where
  "realEstateFinish record ymv unitPrice bt addr coords =
     (case coords of ((lat, lng), j) \<Rightarrow>
        bindE (getProp record K_buildingArea) (\<lambda>av.
        bindE (parseFloat av) (\<lambda>a.
        bindE (getProp record K_totalYuan) (\<lambda>tv.
        bindE (parseFloat tv) (\<lambda>t.
          Inr (Accepted \<lparr>
            position = JArr [JNum lng, JNum lat],
            price = JNum unitPrice,
            yearMonth = ymv,
            area = JNum (num_or0 a),
            address = JStr addr,
            buildingType = bt,
            totalPrice = JNum (num_or0 t)\<rparr>, j))))))"

text \<open>The block inside \<^verbatim>\<open>try\<close>: the outcome and the index of the next draw.\<close>

definition realEstateRecord ::
  "jsnum \<Rightarrow> jsnum \<Rightarrow> jsval list \<Rightarrow> (nat \<Rightarrow> rat) \<Rightarrow> nat \<Rightarrow> csvrow \<Rightarrow> error + outcome \<times> nat" where
  "realEstateRecord minP maxP bTypes rand i r =
     (let record = row_obj r in
      bindE (orProps record [K_tradeYM, K_tradeYMD]) (\<lambda>d.
      bindE (convertROCtoAD d) (\<lambda>ymv.
        if \<not> truthy ymv then Inr (Skipped, i)
        else
          bindE (realEstateUnitPrice record) (\<lambda>unitPrice.
            if \<not> num_truthy unitPrice \<or> num_lt unitPrice minP \<or> num_lt maxP unitPrice
            then Inr (Skipped, i)
            else
              bindE (orProps record [K_buildingForm, K_layoutForm]) (\<lambda>bt.
                if bTypes \<noteq> [] \<and> \<not> arr_includes bTypes bt then Inr (Skipped, i)
                else
                  bindE (getProp record K_county) (\<lambda>c1.
                  bindE (getProp record K_township) (\<lambda>c2.
                  bindE (orProps record [K_subject, K_doorplate]) (\<lambda>c3.
                  bindE (realEstateCoords rand i record)
                    (realEstateFinish record ymv unitPrice bt
                       (joinTruthy (filter truthy [c1, c2, c3])))))))))))"

text \<open>The loop threads the index of the next draw through the rows.\<close>

fun realEstateLoop ::
  "jsnum \<Rightarrow> jsnum \<Rightarrow> jsval list \<Rightarrow> (nat \<Rightarrow> rat) \<Rightarrow> csvrow list \<Rightarrow> (canon list \<times> nat) \<times> nat
     \<Rightarrow> (canon list \<times> nat) \<times> nat" where
  "realEstateLoop minP maxP bTypes rand [] acc = acc"
| "realEstateLoop minP maxP bTypes rand (r # rs) ((processedData, skipped), i) =
     (case realEstateRecord minP maxP bTypes rand i r of
        Inr (Accepted c, j) \<Rightarrow>
          realEstateLoop minP maxP bTypes rand rs ((processedData @ [c], skipped), j)
      | Inr (Skipped, j) \<Rightarrow>
          realEstateLoop minP maxP bTypes rand rs ((processedData, skipped + 1), j)
      | Inl e \<Rightarrow>
          realEstateLoop minP maxP bTypes rand rs ((processedData, skipped + 1), i))"

definition processRealEstateData :: "(nat \<Rightarrow> rat) \<Rightarrow> csvrow list \<Rightarrow> options \<Rightarrow> canon list \<times> nat" where
  "processRealEstateData rand records opts =
     fst (realEstateLoop (minPriceOf opts) (maxPriceOf opts) (buildingTypesOf opts) rand records
            (([], 0), 0))"

section \<open>Predicates of the specification and example rows\<close>

text \<open>The record that the body of a loop pushes for a row, if it pushes one.\<close>

definition accepted :: "('r \<Rightarrow> error + outcome) \<Rightarrow> 'r \<Rightarrow> canon option" where
  "accepted body r = (case body r of Inr (Accepted c) \<Rightarrow> Some c | _ \<Rightarrow> None)"

text \<open>The price of a record is a number inside the inclusive bounds.\<close>

definition price_in_bounds :: "jsnum \<Rightarrow> jsnum \<Rightarrow> canon \<Rightarrow> bool" where
  "price_in_bounds lo hi c = (case price c of JNum p \<Rightarrow> num_le lo p \<and> num_le p hi | _ \<Rightarrow> False)"

text \<open>The canonical pattern \<^verbatim>\<open>YYYY-MM\<close>: four digits, a hyphen, two digits.\<close>

definition canonical_ym :: "jsval \<Rightarrow> bool" where
  "canonical_ym v = (case v of JStr s \<Rightarrow> length s = 7 \<and> gregorian_prefix s | _ \<Rightarrow> False)"

text \<open>A position of exactly two finite numbers.\<close>

definition two_finite :: "jsval \<Rightarrow> bool" where
  "two_finite v = (case v of JArr [JNum a, JNum b] \<Rightarrow> is_finite a \<and> is_finite b | _ \<Rightarrow> False)"

text \<open>The two rows of the end-to-end example of the specification, and the record of
  the first.\<close>

definition ex_row1 :: jsval where
  "ex_row1 = JObj [(U ''longitude'', JNum (Fin (1215435 / 10000))),
                   (U ''latitude'', JNum (Fin (250267 / 10000))),
                   (U ''price'', JNum (Fin 850000)),
                   (U ''yearMonth'', JStr (U ''2023-01''))]"

definition ex_row2 :: jsval where
  "ex_row2 = JObj [(U ''longitude'', JNum (Fin 0)),
                   (U ''latitude'', JNum (Fin 0)),
                   (U ''price'', JNum (Fin 720000)),
                   (U ''yearMonth'', JStr (U ''2023-01''))]"

definition ex_rec1 :: "jsval \<Rightarrow> canon" where
  "ex_rec1 ym = \<lparr>position = JArr [JNum (Fin (1215435 / 10000)), JNum (Fin (250267 / 10000))],
                 price = JNum (Fin 850000), yearMonth = ym, area = JNum (Fin 0),
                 address = JStr [], buildingType = JStr [], totalPrice = JNum (Fin 0)\<rparr>"

text \<open>ASCII lower case of a code unit, to compare keys without regard to case.\<close>

definition lower_cu :: "nat \<Rightarrow> nat" where
  "lower_cu c = (if 65 \<le> c \<and> c \<le> 90 then c + 32 else c)"

text \<open>A CSV row without a unit price column, with a total price and the given area: in
  the column names of the loader, and in those of the government files.\<close>

definition ex_total_area :: "jsstring \<Rightarrow> jsval" where
  "ex_total_area a = JObj [(U ''yearMonth'', JStr (U ''2023-01'')),
                           (U ''totalPrice'', JStr (U ''24225000'')),
                           (U ''area'', JStr a),
                           (U ''latitude'', JStr (U ''25.0267'')),
                           (U ''longitude'', JStr (U ''121.5435''))]"

definition ex_total_area_tw :: "jsstring \<Rightarrow> csvrow" where
  "ex_total_area_tw a = [(K_tradeYM, U ''11201''),
                         (K_totalYuan, U ''24225000''),
                         (K_buildingArea, a),
                         (K_lat, U ''25.0267''),
                         (K_lng, U ''121.5435'')]"

text \<open>Rows that are valid up to their price: a row of the CSV and database loaders with
  the given number as its price, an item of the document loader with the given value as
  its price, and the records that the loaders push for them.\<close>

definition ex_priced :: "rat \<Rightarrow> jsval" where
  "ex_priced p = JObj [(U ''longitude'', JNum (Fin (1215435 / 10000))),
                       (U ''latitude'', JNum (Fin (250267 / 10000))),
                       (U ''price'', JNum (Fin p)),
                       (U ''yearMonth'', JStr (U ''2023-01''))]"

definition ex_priced_rec :: "rat \<Rightarrow> jsval \<Rightarrow> canon" where
  "ex_priced_rec p ym = \<lparr>position = JArr [JNum (Fin (1215435 / 10000)), JNum (Fin (250267 / 10000))],
                 price = JNum (Fin p), yearMonth = ym, area = JNum (Fin 0),
                 address = JStr [], buildingType = JStr [], totalPrice = JNum (Fin 0)\<rparr>"

definition ex_doc :: "jsval \<Rightarrow> jsval \<Rightarrow> jsval \<Rightarrow> jsval" where
  "ex_doc pos p ym = JObj [(U ''position'', pos), (U ''price'', p), (U ''yearMonth'', ym)]"

definition ex_doc_rec :: "jsval \<Rightarrow> jsval \<Rightarrow> jsval \<Rightarrow> canon" where
  "ex_doc_rec pos p ym = \<lparr>position = pos, price = p, yearMonth = ym, area = JNum (Fin 0),
                 address = JStr [], buildingType = JStr [], totalPrice = JNum (Fin 0)\<rparr>"

definition ex_pos :: jsval where
  "ex_pos = JArr [JNum (Fin (1215435 / 10000)), JNum (Fin (250267 / 10000))]"

text \<open>Options that give the two bounds and nothing else.\<close>

definition bounds :: "jsnum \<Rightarrow> jsnum \<Rightarrow> options" where
  "bounds lo hi = \<lparr>minPrice = Some lo, maxPrice = Some hi, buildingTypes = None,
     fieldMapping = noOverride\<rparr>"

text \<open>The era date U+0031 U+0031 U+0032 U+5E74 U+0030 U+0031 U+6708 (112, year sign, 01,
  month sign).\<close>

definition ex_long_form :: jsstring where
  "ex_long_form = [49, 49, 50, 24180, 48, 49, 26376]"

text \<open>A CSV row that is valid up to its date, which stands in the date column of the
  government files.\<close>

definition ex_dated :: "jsstring \<Rightarrow> jsval" where
  "ex_dated d = JObj [(K_tradeYM, JStr d),
                      (U ''price'', JStr (U ''850000'')),
                      (U ''latitude'', JStr (U ''25.0267'')),
                      (U ''longitude'', JStr (U ''121.5435''))]"

text \<open>A CSV row that is valid up to its coordinates, given as the strings of the latitude
  and longitude columns.\<close>

definition ex_coords :: "jsstring \<Rightarrow> jsstring \<Rightarrow> jsval" where
  "ex_coords la lo = JObj [(U ''yearMonth'', JStr (U ''2023-01'')),
                           (U ''price'', JStr (U ''850000'')),
                           (U ''latitude'', JStr la),
                           (U ''longitude'', JStr lo)]"

text \<open>Two sources of random numbers: every draw is 0, every draw is one half.\<close>

definition rand_zero :: "nat \<Rightarrow> rat" where
  "rand_zero i = 0"

definition rand_half :: "nat \<Rightarrow> rat" where
  "rand_half i = 1 / 2"

text \<open>A record, an outcome and the result of the body of the loop without regard to the
  position and to the index of the next draw.\<close>

definition strip_position :: "canon \<Rightarrow> canon" where
  "strip_position c = c\<lparr>position := JNull\<rparr>"

fun strip_result :: "error + outcome \<times> nat \<Rightarrow> error + outcome" where
  "strip_result (Inl e) = Inl e"
| "strip_result (Inr (Skipped, j)) = Inr Skipped"
| "strip_result (Inr (Accepted c, j)) = Inr (Accepted (strip_position c))"

text \<open>The row of a CSV file has a non-empty latitude and a non-empty longitude, the
  test of step 6 of \<^verbatim>\<open>processRealEstateData\<close>.\<close>

definition has_coords :: "csvrow \<Rightarrow> bool" where
  "has_coords r = (case (getProp (row_obj r) K_lat, getProp (row_obj r) K_lng) of
      (Inr a, Inr b) \<Rightarrow> truthy a \<and> truthy b
    | _ \<Rightarrow> False)"

text \<open>A row of a government file with a date and a unit price and no coordinates.\<close>

definition ex_nocoords :: csvrow where
  "ex_nocoords = [(K_tradeYM, U ''11201''), (K_unitPrice, U ''850000'')]"


text \<open>The names under which an object that has no such key of its own finds a property
  of \<^verbatim>\<open>Object.prototype\<close>.\<close>

definition object_inherits :: "jsstring \<Rightarrow> bool" where
  "object_inherits k = (k = U ''__proto__'' \<or> List.member (proto_members ObjectP) k)"

text \<open>The row with total price 24225000 and area 28.5, now with a unit price column that
  holds the given text: the price column of the loader, and the two price columns of the
  government files.\<close>

definition ex_direct :: "jsstring \<Rightarrow> jsval" where
  "ex_direct p = JObj [(U ''yearMonth'', JStr (U ''2023-01'')),
                       (U ''price'', JStr p),
                       (U ''totalPrice'', JStr (U ''24225000'')),
                       (U ''area'', JStr (U ''28.5'')),
                       (U ''latitude'', JStr (U ''25.0267'')),
                       (U ''longitude'', JStr (U ''121.5435''))]"

definition ex_direct_tw :: "jsstring \<Rightarrow> jsstring \<Rightarrow> csvrow" where
  "ex_direct_tw p1 p2 = [(K_tradeYM, U ''11201''),
                         (K_unitPriceSqm, p1),
                         (K_unitPrice, p2),
                         (K_totalYuan, U ''24225000''),
                         (K_buildingArea, U ''28.5''),
                         (K_lat, U ''25.0267''),
                         (K_lng, U ''121.5435'')]"

section \<open>Properties\<close>

text \<open>The equations that evaluate the model on a concrete row.\<close>

lemmas js_eval =
  U_def bindE_def num_le_def num_truthy_def is_finite_def num_or0_def js_or_def arr_includes_def
  is_digit_def digits_val_def padStart2_def is_ws_def read_sign_def read_exponent_def
  read_decimal_def Infinity_str_def parseFloat_str_def radix_digit_def read_radix_def trim_def
  string_to_number_def parseFloat_def toNumber_def array_index_def getProp_def NIAN_def YUE_def
  member_value_def proto_lookup_def obj_get_def
  match1_at_def match2_at_def convertROCtoAD_str_def convertROCtoAD_def gregorian_prefix_def
  K_tradeYM_def K_tradeYMD_def K_unitPriceSqm_def K_unitPrice_def K_lat_def K_lng_def
  K_buildingArea_def K_landArea_def K_subject_def K_doorplate_def K_buildingForm_def
  K_layoutForm_def K_totalYuan_def K_tradePrice_def K_county_def K_township_def
  defaultMapping_def noOverride_def orDefault_def mergeMapping_def defaultOptions_def
  minPriceOf_def maxPriceOf_def buildingTypesOf_def csvYearMonth_def csvUnitPrice_def
  csvFinish_def csvRecord_def processCSVRecords_def dbYearMonth_def dbRecord_def
  processDatabaseRecords_def docRecord_def validateAndProcessData_def row_obj_def
  geocodeAddress_def realEstateUnitPrice_def realEstateCoords_def realEstateFinish_def
  realEstateRecord_def processRealEstateData_def
  show_nat.simps price_in_bounds_def canonical_ym_def two_finite_def ex_row1_def ex_row2_def
  ex_rec1_def

subsection \<open>The loop\<close>

text \<open>The loop pushes the records of the accepted rows in input order and counts the
  other rows.\<close>

lemma run_rows_char:
  "run_rows body rs (out, sk) =
     (out @ List.map_filter (accepted body) rs,
      sk + length (filter (\<lambda>r. accepted body r = None) rs))"
proof (induction rs arbitrary: out sk)
  case Nil
  show ?case by (simp add: List.map_filter_simps)
next
  case (Cons r rs)
  show ?case
  proof (cases "body r")
    case (Inl e)
    then show ?thesis using Cons by (simp add: accepted_def List.map_filter_simps)
  next
    case (Inr oc)
    then show ?thesis using Cons by (cases oc) (simp_all add: accepted_def List.map_filter_simps)
  qed
qed

lemma length_map_filter_split:
  "length (List.map_filter f rs) + length (filter (\<lambda>r. f r = None) rs) = length rs"
  by (induction rs) (auto simp: List.map_filter_simps split: option.splits)

lemma run_rows_length:
  "length (fst (run_rows body rs ([], 0))) + snd (run_rows body rs ([], 0)) = length rs"
  by (simp add: run_rows_char length_map_filter_split)

lemma run_rows_member:
  "c \<in> set (fst (run_rows body rs ([], 0))) \<Longrightarrow> \<exists>r \<in> set rs. body r = Inr (Accepted c)"
  by (auto simp: run_rows_char List.map_filter_def accepted_def split: sum.splits outcome.splits)

lemma run_rows_none:
  "(\<And>r. r \<in> set rs \<Longrightarrow> accepted body r = None) \<Longrightarrow> run_rows body rs ([], 0) = ([], length rs)"
  by (induction rs) (auto simp: run_rows_char List.map_filter_simps)

text \<open>
  C6. Each loader returns for every array of rows: an exception raised in the body of
  the loop for one row is caught, counts the row as skipped, and the loop goes on with
  the next row. On return every row has been pushed or counted, so the number of records
  plus the number of skipped rows is the number of rows.
\<close>

theorem C6_every_row_pushed_or_counted:
  "length (fst (processCSVRecords records opts)) + snd (processCSVRecords records opts)
     = length records
   \<and> length (fst (processDatabaseRecords fmtDate records opts))
       + snd (processDatabaseRecords fmtDate records opts) = length records
   \<and> (\<exists>out skipped. validateAndProcessData (JArr records) opts = Inr (out, skipped)
         \<and> length out + skipped = length records)
   \<and> (body r = Inl e \<longrightarrow>
         run_rows body (r # rs) (out0, sk0) = run_rows body rs (out0, sk0 + 1))"
proof -
  have csv: "length (fst (processCSVRecords records opts)) + snd (processCSVRecords records opts)
      = length records"
    unfolding processCSVRecords_def by (rule run_rows_length)
  have db: "length (fst (processDatabaseRecords fmtDate records opts))
      + snd (processDatabaseRecords fmtDate records opts) = length records"
    unfolding processDatabaseRecords_def by (rule run_rows_length)
  have doc: "\<exists>out skipped. validateAndProcessData (JArr records) opts = Inr (out, skipped)
      \<and> length out + skipped = length records"
    unfolding validateAndProcessData_def
    by (simp add: run_rows_char length_map_filter_split)
  have catch: "body r = Inl e \<longrightarrow>
      run_rows body (r # rs) (out0, sk0) = run_rows body rs (out0, sk0 + 1)"
    by simp
  from csv db doc catch show ?thesis by blast
qed

theorem C6_every_row_pushed_or_counted_witness:
  "csvRecord (mergeMapping noOverride) (Fin 100000) (Fin 2000000) [] JNull = Inl TypeError
   \<and> run_rows (csvRecord (mergeMapping noOverride) (Fin 100000) (Fin 2000000) []) [JNull, ex_row1]
       ([], 0)
     = run_rows (csvRecord (mergeMapping noOverride) (Fin 100000) (Fin 2000000) []) [ex_row1]
         ([], 1)
   \<and> processCSVRecords [JNull, ex_row1] defaultOptions = ([ex_rec1 (JStr (U ''2023-01''))], 1)
   \<and> length (fst (processCSVRecords [JNull, ex_row1] defaultOptions))
       + snd (processCSVRecords [JNull, ex_row1] defaultOptions) = 2"
proof -
  have thrown: "csvRecord (mergeMapping noOverride) (Fin 100000) (Fin 2000000) [] JNull
      = Inl TypeError"
    by (simp add: js_eval)
  have run: "processCSVRecords [JNull, ex_row1] defaultOptions
      = ([ex_rec1 (JStr (U ''2023-01''))], 1)"
    by (simp add: js_eval)
  note inst = C6_every_row_pushed_or_counted
    [where records = "[JNull, ex_row1]" and opts = defaultOptions
       and body = "csvRecord (mergeMapping noOverride) (Fin 100000) (Fin 2000000) []"
       and r = JNull and e = TypeError and rs = "[ex_row1]" and ?out0.0 = "[]" and ?sk0.0 = 0]
  from inst thrown run show ?thesis by simp
qed

subsection \<open>The field resolver\<close>

lemma getValue_obj:
  "getValue (JObj fs) names =
     Inr (case find (\<lambda>n. obj_get fs n \<notin> {JUndefined, JNull, JStr []}) names of
            None \<Rightarrow> JNull
          | Some n \<Rightarrow> obj_get fs n)"
  by (induction names) (simp_all add: getProp_def)

lemma obj_get_own:
  "map_of fs n \<noteq> None \<or> \<not> object_inherits n \<Longrightarrow>
     obj_get fs n = (case map_of fs n of None \<Rightarrow> JUndefined | Some v \<Rightarrow> v)"
  by (auto simp del: proto_members.simps
      simp: obj_get_def proto_lookup_def object_inherits_def split: option.splits)

lemma getValue_own:
  assumes "\<forall>n \<in> set names. map_of fs n \<noteq> None \<or> \<not> object_inherits n"
  shows "getValue (JObj fs) names =
     Inr (case find (\<lambda>n. map_of fs n \<notin> {None, Some JUndefined, Some JNull, Some (JStr [])}) names of
            None \<Rightarrow> JNull
          | Some n \<Rightarrow> the (map_of fs n))"
  using assms
proof (induction names)
  case Nil
  show ?case by simp
next
  case (Cons n names)
  from Cons.prems have own: "map_of fs n \<noteq> None \<or> \<not> object_inherits n"
    and rest: "\<forall>k \<in> set names. map_of fs k \<noteq> None \<or> \<not> object_inherits k"
    by simp_all
  from Cons.IH [OF rest] obj_get_own [OF own] show ?case
    by (simp add: getProp_def split: option.splits)
qed

text \<open>An alias that is no key of the row and names a member of \<^verbatim>\<open>Object.prototype\<close>
  resolves to that member, a function.\<close>

lemma getValue_inherited_member:
  "getValue (JObj []) [U ''toString''] = Inr (JMember ObjectP (U ''toString''))"
  by (simp add: js_eval)

text \<open>
  C3, as amended. On a row object and an alias list in which every alias is a key of the
  row or is no name that objects inherit from \<^verbatim>\<open>Object.prototype\<close> (no alias of the
  default lists is such a name), \<^verbatim>\<open>getValue\<close> returns the value of the first alias in
  list order whose key, compared exactly (with regard to case), is present in the row
  with a value that is not \<^verbatim>\<open>undefined\<close>, not \<^verbatim>\<open>null\<close> and not the empty string. If there is
  no such alias it returns \<^verbatim>\<open>null\<close>, which is neither zero nor the empty string. For a
  row with the unit price column U+55AE U+50F9 at 850000 and \<^verbatim>\<open>price\<close> at 1, in either
  order, the default price aliases resolve to 850000.
\<close>

theorem C3_getValue_first_usable_alias:
  "((\<forall>n \<in> set names. map_of fs n \<noteq> None \<or> \<not> object_inherits n) \<longrightarrow>
      getValue (JObj fs) names =
        Inr (case find (\<lambda>n. map_of fs n \<notin> {None, Some JUndefined, Some JNull, Some (JStr [])})
                    names of
               None \<Rightarrow> JNull
             | Some n \<Rightarrow> the (map_of fs n)))
   \<and> list_all (\<lambda>n. \<not> object_inherits n)
        (a_yearMonth defaultMapping @ a_price defaultMapping @ a_latitude defaultMapping
           @ a_longitude defaultMapping @ a_area defaultMapping @ a_address defaultMapping
           @ a_buildingType defaultMapping @ a_totalPrice defaultMapping)
   \<and> JNull \<noteq> JNum (Fin 0) \<and> JNull \<noteq> JStr []
   \<and> getValue (JObj [(K_unitPrice, JNum (Fin 850000)), (U ''price'', JNum (Fin 1))])
        (a_price defaultMapping) = Inr (JNum (Fin 850000))
   \<and> getValue (JObj [(U ''price'', JNum (Fin 1)), (K_unitPrice, JNum (Fin 850000))])
        (a_price defaultMapping) = Inr (JNum (Fin 850000))"
proof -
  have own: "(\<forall>n \<in> set names. map_of fs n \<noteq> None \<or> \<not> object_inherits n) \<longrightarrow>
      getValue (JObj fs) names =
        Inr (case find (\<lambda>n. map_of fs n \<notin> {None, Some JUndefined, Some JNull, Some (JStr [])})
                    names of
               None \<Rightarrow> JNull
             | Some n \<Rightarrow> the (map_of fs n))"
    using getValue_own [of names fs] by blast
  have dflt: "list_all (\<lambda>n. \<not> object_inherits n)
        (a_yearMonth defaultMapping @ a_price defaultMapping @ a_latitude defaultMapping
           @ a_longitude defaultMapping @ a_area defaultMapping @ a_address defaultMapping
           @ a_buildingType defaultMapping @ a_totalPrice defaultMapping)"
    by (simp add: js_eval object_inherits_def)
  have ex1: "getValue (JObj [(K_unitPrice, JNum (Fin 850000)), (U ''price'', JNum (Fin 1))])
        (a_price defaultMapping) = Inr (JNum (Fin 850000))"
    by (simp add: js_eval)
  have ex2: "getValue (JObj [(U ''price'', JNum (Fin 1)), (K_unitPrice, JNum (Fin 850000))])
        (a_price defaultMapping) = Inr (JNum (Fin 850000))"
    by (simp add: js_eval)
  from own dflt ex1 ex2 show ?thesis by simp
qed

theorem C3_getValue_first_usable_alias_witness:
  "getValue (JObj [(U ''price'', JStr (U ''1'')), (K_unitPrice, JStr []),
                   (U ''unitPrice'', JStr (U ''7''))])
      [K_unitPriceSqm, K_unitPrice, U ''price'', U ''unitPrice''] = Inr (JStr (U ''1''))"
proof -
  have h: "\<forall>n \<in> set [K_unitPriceSqm, K_unitPrice, U ''price'', U ''unitPrice''].
      map_of [(U ''price'', JStr (U ''1'')), (K_unitPrice, JStr []),
              (U ''unitPrice'', JStr (U ''7''))] n \<noteq> None \<or> \<not> object_inherits n"
    by (simp add: js_eval object_inherits_def)
  from C3_getValue_first_usable_alias
    [where fs = "[(U ''price'', JStr (U ''1'')), (K_unitPrice, JStr []),
                  (U ''unitPrice'', JStr (U ''7''))]"
       and names = "[K_unitPriceSqm, K_unitPrice, U ''price'', U ''unitPrice'']",
     THEN conjunct1] h
  have "getValue (JObj [(U ''price'', JStr (U ''1'')), (K_unitPrice, JStr []),
                   (U ''unitPrice'', JStr (U ''7''))])
      [K_unitPriceSqm, K_unitPrice, U ''price'', U ''unitPrice'']
    = Inr (case find (\<lambda>n. map_of [(U ''price'', JStr (U ''1'')), (K_unitPrice, JStr []),
              (U ''unitPrice'', JStr (U ''7''))] n
                \<notin> {None, Some JUndefined, Some JNull, Some (JStr [])})
                    [K_unitPriceSqm, K_unitPrice, U ''price'', U ''unitPrice''] of
               None \<Rightarrow> JNull
             | Some n \<Rightarrow> the (map_of [(U ''price'', JStr (U ''1'')), (K_unitPrice, JStr []),
              (U ''unitPrice'', JStr (U ''7''))] n))"
    by blast
  then show ?thesis
    by (simp add: js_eval)
qed

text \<open>
  C3 as stated fails: the key \<^verbatim>\<open>PRICE\<close> equals the alias \<^verbatim>\<open>price\<close> of the default price
  list up to case, and its value is a non-empty string, yet the resolver returns \<^verbatim>\<open>null\<close>.
\<close>

theorem C3_case_sensitive_counterexample:
  "map lower_cu (U ''PRICE'') = map lower_cu (U ''price'')
   \<and> U ''price'' \<in> set (a_price defaultMapping)
   \<and> getValue (JObj [(U ''PRICE'', JStr (U ''850000''))]) (a_price defaultMapping) = Inr JNull"
  by (simp add: js_eval lower_cu_def)

subsection \<open>Price derivation\<close>

lemma csvUnitPrice_direct:
  "getValue record (a_price m) = Inr pv \<Longrightarrow> parseFloat pv = Inr d \<Longrightarrow> num_truthy d
    \<Longrightarrow> csvUnitPrice m record = Inr d"
  by (simp add: csvUnitPrice_def bindE_def)

lemma num_or0_pos: "num_lt (Fin 0) (num_or0 a) \<Longrightarrow> num_or0 a = a \<and> num_lt (Fin 0) a"
  by (cases a) (auto simp: num_or0_def num_truthy_def)

lemma num_or0_lt: "num_lt (Fin 0) (num_or0 a) = num_lt (Fin 0) a"
  by (cases a) (auto simp: num_or0_def num_truthy_def)

lemma num_or0_id: "num_lt (Fin 0) a \<Longrightarrow> num_or0 a = a"
  by (cases a) (auto simp: num_or0_def num_truthy_def)

lemma csvUnitPrice_fallback:
  assumes "csvUnitPrice m record = Inr p" "getValue record (a_price m) = Inr pv"
    "parseFloat pv = Inr d" "p \<noteq> d"
  shows "\<not> num_truthy d
    \<and> (\<exists>tv t av a. getValue record (a_totalPrice m) = Inr tv \<and> parseFloat tv = Inr t
          \<and> getValue record (a_area m) = Inr av \<and> parseFloat av = Inr a
          \<and> num_lt (Fin 0) t \<and> num_lt (Fin 0) a \<and> p = num_div t a)"
  using assms unfolding csvUnitPrice_def bindE_def
  by (auto split: sum.splits if_splits simp: Let_def dest!: num_or0_pos)

lemma csvUnitPrice_derived:
  assumes "getValue record (a_price m) = Inr pv" "parseFloat pv = Inr d" "\<not> num_truthy d"
    "getValue record (a_totalPrice m) = Inr tv" "parseFloat tv = Inr t"
    "getValue record (a_area m) = Inr av" "parseFloat av = Inr a"
  shows "csvUnitPrice m record =
    Inr (if num_lt (Fin 0) t \<and> num_lt (Fin 0) a then num_div t a else d)"
  using assms by (simp add: csvUnitPrice_def bindE_def Let_def num_or0_lt num_or0_id)

lemma realEstateUnitPrice_first:
  "getProp record K_unitPriceSqm = Inr v1 \<Longrightarrow> parseFloat v1 = Inr d1 \<Longrightarrow> num_truthy d1
    \<Longrightarrow> realEstateUnitPrice record = Inr d1"
  by (simp add: realEstateUnitPrice_def bindE_def)

lemma realEstateUnitPrice_second:
  "getProp record K_unitPriceSqm = Inr v1 \<Longrightarrow> parseFloat v1 = Inr d1 \<Longrightarrow> \<not> num_truthy d1
    \<Longrightarrow> getProp record K_unitPrice = Inr v2 \<Longrightarrow> parseFloat v2 = Inr d2 \<Longrightarrow> num_truthy d2
    \<Longrightarrow> realEstateUnitPrice record = Inr d2"
  by (simp add: realEstateUnitPrice_def bindE_def)

lemma realEstateUnitPrice_fallback:
  assumes "realEstateUnitPrice record = Inr p"
    "getProp record K_unitPriceSqm = Inr v1" "parseFloat v1 = Inr d1"
    "getProp record K_unitPrice = Inr v2" "parseFloat v2 = Inr d2"
    "p \<noteq> d1" "p \<noteq> d2"
  shows "\<not> num_truthy d1 \<and> \<not> num_truthy d2
    \<and> (\<exists>tv t av a. orProps record [K_totalYuan, K_tradePrice] = Inr tv \<and> parseFloat tv = Inr t
          \<and> orProps record [K_buildingArea, K_landArea] = Inr av \<and> parseFloat av = Inr a
          \<and> num_lt (Fin 0) t \<and> num_lt (Fin 0) a \<and> p = num_div t a)"
  using assms unfolding realEstateUnitPrice_def bindE_def
  by (auto split: sum.splits if_splits simp: Let_def dest!: num_or0_pos)

lemma realEstateUnitPrice_derived:
  assumes "getProp record K_unitPriceSqm = Inr v1" "parseFloat v1 = Inr d1" "\<not> num_truthy d1"
    "getProp record K_unitPrice = Inr v2" "parseFloat v2 = Inr d2" "\<not> num_truthy d2"
    "orProps record [K_totalYuan, K_tradePrice] = Inr tv" "parseFloat tv = Inr t"
    "orProps record [K_buildingArea, K_landArea] = Inr av" "parseFloat av = Inr a"
  shows "realEstateUnitPrice record =
    Inr (if num_lt (Fin 0) t \<and> num_lt (Fin 0) a then num_div t a else d2)"
  using assms
  by (simp add: realEstateUnitPrice_def bindE_def Let_def num_or0_lt num_or0_id
      del: orProps.simps)
lemma derived_price_csv:
  "csvUnitPrice defaultMapping (ex_total_area (U ''28.5'')) = Inr (Fin 850000)
   \<and> map price (fst (processCSVRecords [ex_total_area (U ''28.5'')] defaultOptions))
        = [JNum (Fin 850000)]"
  by (simp add: js_eval ex_total_area_def)

lemma zero_area_csv:
  "csvUnitPrice defaultMapping (ex_total_area (U ''0'')) = Inr NaN
   \<and> processCSVRecords [ex_total_area (U ''0'')] defaultOptions = ([], 1)"
  by (simp add: js_eval ex_total_area_def)

lemma derived_price_tw:
  "realEstateUnitPrice (row_obj (ex_total_area_tw (U ''28.5''))) = Inr (Fin 850000)
   \<and> map price (fst (processRealEstateData rand [ex_total_area_tw (U ''28.5'')] defaultOptions))
        = [JNum (Fin 850000)]"
  by (simp add: js_eval ex_total_area_tw_def)

lemma zero_area_tw:
  "realEstateUnitPrice (row_obj (ex_total_area_tw (U ''0''))) = Inr NaN
   \<and> processRealEstateData rand [ex_total_area_tw (U ''0'')] defaultOptions = ([], 1)"
  by (simp add: js_eval ex_total_area_tw_def)

lemma direct_price_csv:
  "csvUnitPrice defaultMapping (ex_direct (U ''900000'')) = Inr (Fin 900000)
   \<and> map price (fst (processCSVRecords [ex_direct (U ''900000'')] defaultOptions))
        = [JNum (Fin 900000)]"
  by (simp add: js_eval ex_direct_def)

lemma direct_price_first:
  "realEstateUnitPrice (row_obj (ex_direct_tw (U ''900000'') (U ''800000'')))
        = Inr (Fin 900000)
   \<and> map price (fst (processRealEstateData rand [ex_direct_tw (U ''900000'') (U ''800000'')]
        defaultOptions)) = [JNum (Fin 900000)]"
  by (simp add: js_eval ex_direct_tw_def)

lemma direct_price_second:
  "realEstateUnitPrice (row_obj (ex_direct_tw [] (U ''900000''))) = Inr (Fin 900000)
   \<and> map price (fst (processRealEstateData rand [ex_direct_tw [] (U ''900000'')]
        defaultOptions)) = [JNum (Fin 900000)]"
  by (simp add: js_eval ex_direct_tw_def)

text \<open>
  C4, as amended. The unit price is the direct unit-price field whenever that field parses
  to a number that is neither NaN nor zero, an infinity included: the price alias list in
  \<^verbatim>\<open>processCSVRecords\<close>; the column U+55AE U+50F9 U+5143 U+5E73 U+65B9 U+516C U+5C3A and,
  when that gives NaN or zero, the column U+55AE U+50F9 in \<^verbatim>\<open>processRealEstateData\<close>. The
  quotient of total price and area is computed only when the direct field gives NaN or
  zero, and then exactly when the total price and the area are both strictly positive;
  otherwise the direct value stays and the row is skipped. A row without a unit price,
  with total price 24225000 and area 28.5, has the derived price 850000. With area 0 the
  derivation gives no price (NaN, not an infinity) and the row is skipped. The same row
  with a unit price of 900000 keeps 900000.
\<close>

theorem C4_price_derivation:
  "(getValue row (a_price m) = Inr pv \<and> parseFloat pv = Inr d \<and> num_truthy d
      \<longrightarrow> csvUnitPrice m row = Inr d)
   \<and> (csvUnitPrice m row = Inr p \<and> getValue row (a_price m) = Inr pv
        \<and> parseFloat pv = Inr d \<and> p \<noteq> d
      \<longrightarrow> \<not> num_truthy d
          \<and> (\<exists>tv t av a. getValue row (a_totalPrice m) = Inr tv \<and> parseFloat tv = Inr t
                \<and> getValue row (a_area m) = Inr av \<and> parseFloat av = Inr a
                \<and> num_lt (Fin 0) t \<and> num_lt (Fin 0) a \<and> p = num_div t a))
   \<and> (getValue row (a_price m) = Inr pv \<and> parseFloat pv = Inr d \<and> \<not> num_truthy d
        \<and> getValue row (a_totalPrice m) = Inr tv \<and> parseFloat tv = Inr t
        \<and> getValue row (a_area m) = Inr av \<and> parseFloat av = Inr a
      \<longrightarrow> csvUnitPrice m row =
            Inr (if num_lt (Fin 0) t \<and> num_lt (Fin 0) a then num_div t a else d))
   \<and> (getProp row K_unitPriceSqm = Inr v1 \<and> parseFloat v1 = Inr d1 \<and> num_truthy d1
      \<longrightarrow> realEstateUnitPrice row = Inr d1)
   \<and> (getProp row K_unitPriceSqm = Inr v1 \<and> parseFloat v1 = Inr d1 \<and> \<not> num_truthy d1
        \<and> getProp row K_unitPrice = Inr v2 \<and> parseFloat v2 = Inr d2 \<and> num_truthy d2
      \<longrightarrow> realEstateUnitPrice row = Inr d2)
   \<and> (realEstateUnitPrice row = Inr p
        \<and> getProp row K_unitPriceSqm = Inr v1 \<and> parseFloat v1 = Inr d1
        \<and> getProp row K_unitPrice = Inr v2 \<and> parseFloat v2 = Inr d2
        \<and> p \<noteq> d1 \<and> p \<noteq> d2
      \<longrightarrow> \<not> num_truthy d1 \<and> \<not> num_truthy d2
          \<and> (\<exists>tv t av a. orProps row [K_totalYuan, K_tradePrice] = Inr tv
                \<and> parseFloat tv = Inr t
                \<and> orProps row [K_buildingArea, K_landArea] = Inr av \<and> parseFloat av = Inr a
                \<and> num_lt (Fin 0) t \<and> num_lt (Fin 0) a \<and> p = num_div t a))
   \<and> (getProp row K_unitPriceSqm = Inr v1 \<and> parseFloat v1 = Inr d1 \<and> \<not> num_truthy d1
        \<and> getProp row K_unitPrice = Inr v2 \<and> parseFloat v2 = Inr d2 \<and> \<not> num_truthy d2
        \<and> orProps row [K_totalYuan, K_tradePrice] = Inr tv \<and> parseFloat tv = Inr t
        \<and> orProps row [K_buildingArea, K_landArea] = Inr av \<and> parseFloat av = Inr a
      \<longrightarrow> realEstateUnitPrice row =
            Inr (if num_lt (Fin 0) t \<and> num_lt (Fin 0) a then num_div t a else d2))
   \<and> csvUnitPrice defaultMapping (ex_total_area (U ''28.5'')) = Inr (Fin 850000)
   \<and> map price (fst (processCSVRecords [ex_total_area (U ''28.5'')] defaultOptions))
        = [JNum (Fin 850000)]
   \<and> csvUnitPrice defaultMapping (ex_total_area (U ''0'')) = Inr NaN
   \<and> processCSVRecords [ex_total_area (U ''0'')] defaultOptions = ([], 1)
   \<and> realEstateUnitPrice (row_obj (ex_total_area_tw (U ''28.5''))) = Inr (Fin 850000)
   \<and> map price (fst (processRealEstateData rand [ex_total_area_tw (U ''28.5'')] defaultOptions))
        = [JNum (Fin 850000)]
   \<and> realEstateUnitPrice (row_obj (ex_total_area_tw (U ''0''))) = Inr NaN
   \<and> processRealEstateData rand [ex_total_area_tw (U ''0'')] defaultOptions = ([], 1)
   \<and> csvUnitPrice defaultMapping (ex_direct (U ''900000'')) = Inr (Fin 900000)
   \<and> map price (fst (processCSVRecords [ex_direct (U ''900000'')] defaultOptions))
        = [JNum (Fin 900000)]
   \<and> realEstateUnitPrice (row_obj (ex_direct_tw (U ''900000'') (U ''800000'')))
        = Inr (Fin 900000)
   \<and> map price (fst (processRealEstateData rand [ex_direct_tw (U ''900000'') (U ''800000'')]
        defaultOptions)) = [JNum (Fin 900000)]
   \<and> realEstateUnitPrice (row_obj (ex_direct_tw [] (U ''900000''))) = Inr (Fin 900000)
   \<and> map price (fst (processRealEstateData rand [ex_direct_tw [] (U ''900000'')]
        defaultOptions)) = [JNum (Fin 900000)]"
proof -
  have direct: "getValue row (a_price m) = Inr pv \<and> parseFloat pv = Inr d \<and> num_truthy d
      \<longrightarrow> csvUnitPrice m row = Inr d"
    using csvUnitPrice_direct [of row m pv d] by blast
  have derived: "getValue row (a_price m) = Inr pv \<and> parseFloat pv = Inr d \<and> \<not> num_truthy d
        \<and> getValue row (a_totalPrice m) = Inr tv \<and> parseFloat tv = Inr t
        \<and> getValue row (a_area m) = Inr av \<and> parseFloat av = Inr a
      \<longrightarrow> csvUnitPrice m row =
            Inr (if num_lt (Fin 0) t \<and> num_lt (Fin 0) a then num_div t a else d)"
    using csvUnitPrice_derived [of row m pv d tv t av a] by blast
  have first: "getProp row K_unitPriceSqm = Inr v1 \<and> parseFloat v1 = Inr d1 \<and> num_truthy d1
      \<longrightarrow> realEstateUnitPrice row = Inr d1"
    using realEstateUnitPrice_first [of row v1 d1] by blast
  have second: "getProp row K_unitPriceSqm = Inr v1 \<and> parseFloat v1 = Inr d1
        \<and> \<not> num_truthy d1
        \<and> getProp row K_unitPrice = Inr v2 \<and> parseFloat v2 = Inr d2 \<and> num_truthy d2
      \<longrightarrow> realEstateUnitPrice row = Inr d2"
    using realEstateUnitPrice_second [of row v1 d1 v2 d2] by blast
  have derived_tw: "getProp row K_unitPriceSqm = Inr v1 \<and> parseFloat v1 = Inr d1
        \<and> \<not> num_truthy d1
        \<and> getProp row K_unitPrice = Inr v2 \<and> parseFloat v2 = Inr d2 \<and> \<not> num_truthy d2
        \<and> orProps row [K_totalYuan, K_tradePrice] = Inr tv \<and> parseFloat tv = Inr t
        \<and> orProps row [K_buildingArea, K_landArea] = Inr av \<and> parseFloat av = Inr a
      \<longrightarrow> realEstateUnitPrice row =
            Inr (if num_lt (Fin 0) t \<and> num_lt (Fin 0) a then num_div t a else d2)"
    using realEstateUnitPrice_derived [of row v1 d1 v2 d2 tv t av a] by blast
  note general = direct csvUnitPrice_fallback [of m row p pv d] derived first second
    realEstateUnitPrice_fallback [of row p v1 d1 v2 d2] derived_tw
  note examples = derived_price_csv [THEN conjunct1] derived_price_csv [THEN conjunct2]
    zero_area_csv [THEN conjunct1] zero_area_csv [THEN conjunct2]
    derived_price_tw [THEN conjunct1] derived_price_tw [THEN conjunct2]
    zero_area_tw [THEN conjunct1] zero_area_tw [THEN conjunct2]
    direct_price_csv [THEN conjunct1] direct_price_csv [THEN conjunct2]
    direct_price_first [THEN conjunct1] direct_price_first [THEN conjunct2]
    direct_price_second [THEN conjunct1] direct_price_second [THEN conjunct2]
  show ?thesis
    by (intro conjI impI general [rule_format] examples; (elim conjE)?; assumption?)
qed

theorem C4_price_derivation_witness:
  "getValue ex_row1 (a_price defaultMapping) = Inr (JNum (Fin 850000))
   \<and> parseFloat (JNum (Fin 850000)) = Inr (Fin 850000)
   \<and> num_truthy (Fin 850000)
   \<and> csvUnitPrice defaultMapping ex_row1 = Inr (Fin 850000)
   \<and> getValue (ex_total_area (U ''28.5'')) (a_price defaultMapping) = Inr JNull
   \<and> parseFloat JNull = Inr NaN
   \<and> \<not> num_truthy NaN
   \<and> getValue (ex_total_area (U ''28.5'')) (a_totalPrice defaultMapping)
        = Inr (JStr (U ''24225000''))
   \<and> parseFloat (JStr (U ''24225000'')) = Inr (Fin 24225000)
   \<and> getValue (ex_total_area (U ''28.5'')) (a_area defaultMapping) = Inr (JStr (U ''28.5''))
   \<and> parseFloat (JStr (U ''28.5'')) = Inr (Fin (57 / 2))
   \<and> num_div (Fin 24225000) (Fin (57 / 2)) = Fin 850000
   \<and> csvUnitPrice defaultMapping (ex_total_area (U ''28.5'')) = Inr (Fin 850000)
   \<and> (\<exists>tv t av a.
         getValue (ex_total_area (U ''28.5'')) (a_totalPrice defaultMapping) = Inr tv
         \<and> parseFloat tv = Inr t
         \<and> getValue (ex_total_area (U ''28.5'')) (a_area defaultMapping) = Inr av
         \<and> parseFloat av = Inr a
         \<and> num_lt (Fin 0) t \<and> num_lt (Fin 0) a \<and> Fin 850000 = num_div t a)
   \<and> getProp (row_obj (ex_direct_tw (U ''900000'') (U ''800000''))) K_unitPriceSqm
        = Inr (JStr (U ''900000''))
   \<and> parseFloat (JStr (U ''900000'')) = Inr (Fin 900000)
   \<and> realEstateUnitPrice (row_obj (ex_direct_tw (U ''900000'') (U ''800000'')))
        = Inr (Fin 900000)
   \<and> getProp (row_obj (ex_direct_tw [] (U ''900000''))) K_unitPriceSqm = Inr (JStr [])
   \<and> parseFloat (JStr []) = Inr NaN
   \<and> getProp (row_obj (ex_direct_tw [] (U ''900000''))) K_unitPrice = Inr (JStr (U ''900000''))
   \<and> realEstateUnitPrice (row_obj (ex_direct_tw [] (U ''900000''))) = Inr (Fin 900000)
   \<and> getProp (row_obj (ex_total_area_tw (U ''28.5''))) K_unitPriceSqm = Inr JUndefined
   \<and> getProp (row_obj (ex_total_area_tw (U ''28.5''))) K_unitPrice = Inr JUndefined
   \<and> parseFloat JUndefined = Inr NaN
   \<and> orProps (row_obj (ex_total_area_tw (U ''28.5''))) [K_totalYuan, K_tradePrice]
        = Inr (JStr (U ''24225000''))
   \<and> orProps (row_obj (ex_total_area_tw (U ''28.5''))) [K_buildingArea, K_landArea]
        = Inr (JStr (U ''28.5''))
   \<and> realEstateUnitPrice (row_obj (ex_total_area_tw (U ''28.5''))) = Inr (Fin 850000)
   \<and> (\<exists>tv t av a.
         orProps (row_obj (ex_total_area_tw (U ''28.5''))) [K_totalYuan, K_tradePrice] = Inr tv
         \<and> parseFloat tv = Inr t
         \<and> orProps (row_obj (ex_total_area_tw (U ''28.5''))) [K_buildingArea, K_landArea] = Inr av
         \<and> parseFloat av = Inr a
         \<and> num_lt (Fin 0) t \<and> num_lt (Fin 0) a \<and> Fin 850000 = num_div t a)"
proof -
  have a1: "getValue ex_row1 (a_price defaultMapping) = Inr (JNum (Fin 850000))"
    by (simp add: js_eval)
  have a2: "parseFloat (JNum (Fin 850000)) = Inr (Fin 850000)"
    by (simp add: parseFloat_def)
  have a3: "num_truthy (Fin 850000)"
    by (simp add: num_truthy_def)
  have b1: "getValue (ex_total_area (U ''28.5'')) (a_price defaultMapping) = Inr JNull"
    by (simp add: js_eval ex_total_area_def)
  have b2: "parseFloat JNull = Inr NaN"
    by (simp add: parseFloat_def)
  have b3: "\<not> num_truthy NaN"
    by (simp add: num_truthy_def)
  have b4: "getValue (ex_total_area (U ''28.5'')) (a_totalPrice defaultMapping)
      = Inr (JStr (U ''24225000''))"
    by (simp add: js_eval ex_total_area_def)
  have b5: "parseFloat (JStr (U ''24225000'')) = Inr (Fin 24225000)"
    by (simp add: js_eval)
  have b6: "getValue (ex_total_area (U ''28.5'')) (a_area defaultMapping)
      = Inr (JStr (U ''28.5''))"
    by (simp add: js_eval ex_total_area_def)
  have b7: "parseFloat (JStr (U ''28.5'')) = Inr (Fin (57 / 2))"
    by (simp add: js_eval)
  have b8: "num_lt (Fin 0) (Fin 24225000) \<and> num_lt (Fin 0) (Fin (57 / 2))"
    by simp
  have b9: "num_div (Fin 24225000) (Fin (57 / 2)) = Fin 850000"
    by simp
  have b10: "Fin 850000 \<noteq> NaN"
    by simp
  have c1: "getProp (row_obj (ex_direct_tw (U ''900000'') (U ''800000''))) K_unitPriceSqm
      = Inr (JStr (U ''900000''))"
    by (simp add: js_eval ex_direct_tw_def)
  have c2: "parseFloat (JStr (U ''900000'')) = Inr (Fin 900000)"
    by (simp add: js_eval)
  have c3: "num_truthy (Fin 900000)"
    by (simp add: num_truthy_def)
  have d1: "getProp (row_obj (ex_direct_tw [] (U ''900000''))) K_unitPriceSqm = Inr (JStr [])"
    by (simp add: js_eval ex_direct_tw_def)
  have d2: "parseFloat (JStr []) = Inr NaN"
    by (simp add: js_eval)
  have d3: "getProp (row_obj (ex_direct_tw [] (U ''900000''))) K_unitPrice
      = Inr (JStr (U ''900000''))"
    by (simp add: js_eval ex_direct_tw_def)
  have t1: "getProp (row_obj (ex_total_area_tw (U ''28.5''))) K_unitPriceSqm = Inr JUndefined"
    by (simp add: js_eval ex_total_area_tw_def)
  have t2: "getProp (row_obj (ex_total_area_tw (U ''28.5''))) K_unitPrice = Inr JUndefined"
    by (simp add: js_eval ex_total_area_tw_def)
  have t3: "parseFloat JUndefined = Inr NaN"
    by (simp add: parseFloat_def)
  have t4: "orProps (row_obj (ex_total_area_tw (U ''28.5''))) [K_totalYuan, K_tradePrice]
      = Inr (JStr (U ''24225000''))"
    by (simp add: js_eval ex_total_area_tw_def)
  have t5: "orProps (row_obj (ex_total_area_tw (U ''28.5''))) [K_buildingArea, K_landArea]
      = Inr (JStr (U ''28.5''))"
    by (simp add: js_eval ex_total_area_tw_def)
  from C4_price_derivation [where row = ex_row1 and m = defaultMapping
      and pv = "JNum (Fin 850000)" and d = "Fin 850000", THEN conjunct1] a1 a2 a3
  have w1: "csvUnitPrice defaultMapping ex_row1 = Inr (Fin 850000)"
    by blast
  from C4_price_derivation [where row = "ex_total_area (U ''28.5'')" and m = defaultMapping
      and pv = JNull and d = NaN and tv = "JStr (U ''24225000'')" and t = "Fin 24225000"
      and av = "JStr (U ''28.5'')" and a = "Fin (57 / 2)",
      THEN conjunct2, THEN conjunct2, THEN conjunct1] b1 b2 b3 b4 b5 b6 b7
  have "csvUnitPrice defaultMapping (ex_total_area (U ''28.5'')) =
      Inr (if num_lt (Fin 0) (Fin 24225000) \<and> num_lt (Fin 0) (Fin (57 / 2))
           then num_div (Fin 24225000) (Fin (57 / 2)) else NaN)"
    by blast
  with b8 b9 have w3: "csvUnitPrice defaultMapping (ex_total_area (U ''28.5''))
      = Inr (Fin 850000)"
    by simp
  from C4_price_derivation [where row = "ex_total_area (U ''28.5'')" and m = defaultMapping
      and pv = JNull and d = NaN and p = "Fin 850000", THEN conjunct2, THEN conjunct1]
    w3 b1 b2 b10
  have w2: "\<exists>tv t av a.
      getValue (ex_total_area (U ''28.5'')) (a_totalPrice defaultMapping) = Inr tv
      \<and> parseFloat tv = Inr t
      \<and> getValue (ex_total_area (U ''28.5'')) (a_area defaultMapping) = Inr av
      \<and> parseFloat av = Inr a
      \<and> num_lt (Fin 0) t \<and> num_lt (Fin 0) a \<and> Fin 850000 = num_div t a"
    by blast
  from C4_price_derivation [where row = "row_obj (ex_direct_tw (U ''900000'') (U ''800000''))"
      and ?v1.0 = "JStr (U ''900000'')" and ?d1.0 = "Fin 900000",
      THEN conjunct2, THEN conjunct2, THEN conjunct2, THEN conjunct1] c1 c2 c3
  have w4: "realEstateUnitPrice (row_obj (ex_direct_tw (U ''900000'') (U ''800000'')))
      = Inr (Fin 900000)"
    by blast
  from C4_price_derivation [where row = "row_obj (ex_direct_tw [] (U ''900000''))"
      and ?v1.0 = "JStr []" and ?d1.0 = NaN and ?v2.0 = "JStr (U ''900000'')"
      and ?d2.0 = "Fin 900000",
      THEN conjunct2, THEN conjunct2, THEN conjunct2, THEN conjunct2, THEN conjunct1]
    d1 d2 b3 d3 c2 c3
  have w5: "realEstateUnitPrice (row_obj (ex_direct_tw [] (U ''900000''))) = Inr (Fin 900000)"
    by blast
  from C4_price_derivation [where row = "row_obj (ex_total_area_tw (U ''28.5''))"
      and ?v1.0 = JUndefined and ?d1.0 = NaN and ?v2.0 = JUndefined and ?d2.0 = NaN
      and tv = "JStr (U ''24225000'')" and t = "Fin 24225000"
      and av = "JStr (U ''28.5'')" and a = "Fin (57 / 2)",
      THEN conjunct2, THEN conjunct2, THEN conjunct2, THEN conjunct2, THEN conjunct2,
      THEN conjunct2, THEN conjunct1] t1 t2 t3 b3 t4 b5 t5 b7
  have "realEstateUnitPrice (row_obj (ex_total_area_tw (U ''28.5''))) =
      Inr (if num_lt (Fin 0) (Fin 24225000) \<and> num_lt (Fin 0) (Fin (57 / 2))
           then num_div (Fin 24225000) (Fin (57 / 2)) else NaN)"
    by blast
  with b8 b9 have w7: "realEstateUnitPrice (row_obj (ex_total_area_tw (U ''28.5'')))
      = Inr (Fin 850000)"
    by simp
  from C4_price_derivation [where row = "row_obj (ex_total_area_tw (U ''28.5''))"
      and p = "Fin 850000" and ?v1.0 = JUndefined and ?d1.0 = NaN and ?v2.0 = JUndefined
      and ?d2.0 = NaN,
      THEN conjunct2, THEN conjunct2, THEN conjunct2, THEN conjunct2, THEN conjunct2,
      THEN conjunct1] w7 t1 t2 t3 b10
  have w6: "\<exists>tv t av a.
      orProps (row_obj (ex_total_area_tw (U ''28.5''))) [K_totalYuan, K_tradePrice] = Inr tv
      \<and> parseFloat tv = Inr t
      \<and> orProps (row_obj (ex_total_area_tw (U ''28.5''))) [K_buildingArea, K_landArea] = Inr av
      \<and> parseFloat av = Inr a
      \<and> num_lt (Fin 0) t \<and> num_lt (Fin 0) a \<and> Fin 850000 = num_div t a"
    by blast
  show ?thesis
    by (intro conjI a1 a2 a3 w1 b1 b2 b3 b4 b5 b6 b7 b9 w3 w2 c1 c2 w4 d1 d2 d3 w5 t1 t2 t3 t4 t5
        w7 w6)
qed

text \<open>
  C4 as stated fails: an infinite direct price is not a usable (finite) value, yet no
  quotient is computed for it. The row with total price 24225000 and area 28.5 whose unit
  price column holds \<^verbatim>\<open>Infinity\<close> keeps the price Infinity: under the default bounds it
  is skipped, and with no upper bound it is returned with that price, where the quotient
  is 850000.
\<close>

theorem C4_infinite_direct_price_counterexample:
  "getValue (ex_direct (U ''Infinity'')) (a_price defaultMapping) = Inr (JStr (U ''Infinity''))
   \<and> parseFloat (JStr (U ''Infinity'')) = Inr PInf
   \<and> \<not> is_finite PInf
   \<and> csvUnitPrice defaultMapping (ex_direct (U ''Infinity'')) = Inr PInf
   \<and> processCSVRecords [ex_direct (U ''Infinity'')] defaultOptions = ([], 1)
   \<and> map price (fst (processCSVRecords [ex_direct (U ''Infinity'')] (bounds (Fin 100000) PInf)))
        = [JNum PInf]
   \<and> realEstateUnitPrice (row_obj (ex_direct_tw [] (U ''Infinity''))) = Inr PInf
   \<and> processRealEstateData rand_zero [ex_direct_tw [] (U ''Infinity'')] defaultOptions = ([], 1)
   \<and> map price (fst (processRealEstateData rand_zero [ex_direct_tw [] (U ''Infinity'')]
        (bounds (Fin 100000) PInf))) = [JNum PInf]"
proof -
  have a: "getValue (ex_direct (U ''Infinity'')) (a_price defaultMapping)
      = Inr (JStr (U ''Infinity''))"
    by (simp add: js_eval ex_direct_def)
  have b: "parseFloat (JStr (U ''Infinity'')) = Inr PInf"
    by (simp add: js_eval)
  have c: "\<not> is_finite PInf"
    by (simp add: is_finite_def)
  have d: "csvUnitPrice defaultMapping (ex_direct (U ''Infinity'')) = Inr PInf"
    by (simp add: js_eval ex_direct_def)
  have e: "processCSVRecords [ex_direct (U ''Infinity'')] defaultOptions = ([], 1)"
    by (simp add: js_eval ex_direct_def)
  have f: "map price (fst (processCSVRecords [ex_direct (U ''Infinity'')]
      (bounds (Fin 100000) PInf))) = [JNum PInf]"
    by (simp add: js_eval ex_direct_def bounds_def)
  have g: "realEstateUnitPrice (row_obj (ex_direct_tw [] (U ''Infinity''))) = Inr PInf"
    by (simp add: js_eval ex_direct_tw_def)
  have h: "processRealEstateData rand_zero [ex_direct_tw [] (U ''Infinity'')] defaultOptions
      = ([], 1)"
    by (simp add: js_eval ex_direct_tw_def)
  have i: "map price (fst (processRealEstateData rand_zero [ex_direct_tw [] (U ''Infinity'')]
      (bounds (Fin 100000) PInf))) = [JNum PInf]"
    by (simp add: js_eval ex_direct_tw_def bounds_def rand_zero_def)
  show ?thesis
    by (intro conjI a b c d e f g h i)
qed

subsection \<open>What an accepted row guarantees\<close>

lemma length_two: "length xs = 2 \<Longrightarrow> \<exists>x y. xs = [x, y]"
  by (cases xs; cases "tl xs") auto

lemma csvRecord_AcceptedD:
  assumes "csvRecord m minP maxP bT record = Inr (Accepted c)"
  shows "\<exists>p lat lng. price c = JNum p \<and> num_truthy p \<and> \<not> num_lt p minP \<and> \<not> num_lt maxP p
          \<and> position c = JArr [JNum lng, JNum lat] \<and> num_truthy lat \<and> num_truthy lng"
  using assms unfolding csvRecord_def csvFinish_def bindE_def
  by (auto split: sum.splits option.splits if_splits)

lemma dbRecord_AcceptedD:
  assumes "dbRecord f minP maxP bT record = Inr (Accepted c)"
  shows "\<exists>p lat lng. price c = JNum p \<and> num_truthy p \<and> \<not> num_lt p minP \<and> \<not> num_lt maxP p
          \<and> position c = JArr [JNum lng, JNum lat] \<and> num_truthy lat \<and> num_truthy lng"
  using assms unfolding dbRecord_def bindE_def
  by (auto split: sum.splits option.splits if_splits)

lemma docRecord_AcceptedD:
  assumes "docRecord minP maxP bT item = Inr (Accepted c)"
  shows "\<exists>x y pn. position c = JArr [x, y] \<and> truthy (price c) \<and> truthy (yearMonth c)
          \<and> toNumber (price c) = Inr pn \<and> \<not> num_lt pn minP \<and> \<not> num_lt maxP pn
          \<and> getProp item (U ''position'') = Inr (position c)
          \<and> getProp item (U ''price'') = Inr (price c)
          \<and> getProp item (U ''yearMonth'') = Inr (yearMonth c)"
  using assms unfolding docRecord_def bindE_def
  by (auto split: sum.splits option.splits if_splits jsval.splits dest: length_two)

lemma validate_member:
  assumes "validateAndProcessData (JArr items) opts = Inr (out, sk)" "c \<in> set out"
  shows "\<exists>item \<in> set items.
     docRecord (minPriceOf opts) (maxPriceOf opts) (buildingTypesOf opts) item = Inr (Accepted c)"
proof -
  from assms(1) have "out = fst (run_rows
      (docRecord (minPriceOf opts) (maxPriceOf opts) (buildingTypesOf opts)) items ([], 0))"
    by (simp add: validateAndProcessData_def)
  with assms(2) show ?thesis by (simp add: run_rows_member)
qed

subsection \<open>Price bounds\<close>

lemma in_bounds:
  "num_truthy p \<Longrightarrow> lo \<noteq> NaN \<Longrightarrow> hi \<noteq> NaN \<Longrightarrow> \<not> num_lt p lo \<Longrightarrow> \<not> num_lt hi p
    \<Longrightarrow> num_le lo p \<and> num_le p hi"
  by (simp add: num_le_def num_truthy_def)

lemma csv_price_bounds:
  assumes "minPriceOf opts \<noteq> NaN" "maxPriceOf opts \<noteq> NaN"
    "c \<in> set (fst (processCSVRecords records opts))"
  shows "price_in_bounds (minPriceOf opts) (maxPriceOf opts) c"
proof -
  from assms(3) have "c \<in> set (fst (run_rows
      (csvRecord (mergeMapping (fieldMapping opts)) (minPriceOf opts) (maxPriceOf opts)
         (buildingTypesOf opts)) records ([], 0)))"
    by (simp only: processCSVRecords_def)
  from run_rows_member [OF this] obtain r where
    acc: "csvRecord (mergeMapping (fieldMapping opts)) (minPriceOf opts) (maxPriceOf opts)
       (buildingTypesOf opts) r = Inr (Accepted c)"
    by blast
  from csvRecord_AcceptedD [OF acc] obtain p where
    p: "price c = JNum p" "num_truthy p" "\<not> num_lt p (minPriceOf opts)"
       "\<not> num_lt (maxPriceOf opts) p"
    by blast
  from in_bounds [OF p(2) assms(1,2) p(3,4)] p(1) show ?thesis
    by (simp add: price_in_bounds_def)
qed

lemma db_price_bounds:
  assumes "minPriceOf opts \<noteq> NaN" "maxPriceOf opts \<noteq> NaN"
    "c \<in> set (fst (processDatabaseRecords fmtDate records opts))"
  shows "price_in_bounds (minPriceOf opts) (maxPriceOf opts) c"
proof -
  from assms(3) have "c \<in> set (fst (run_rows
      (dbRecord fmtDate (minPriceOf opts) (maxPriceOf opts) (buildingTypesOf opts))
      records ([], 0)))"
    by (simp only: processDatabaseRecords_def)
  from run_rows_member [OF this] obtain r where
    acc: "dbRecord fmtDate (minPriceOf opts) (maxPriceOf opts) (buildingTypesOf opts) r
       = Inr (Accepted c)"
    by blast
  from dbRecord_AcceptedD [OF acc] obtain p where
    p: "price c = JNum p" "num_truthy p" "\<not> num_lt p (minPriceOf opts)"
       "\<not> num_lt (maxPriceOf opts) p"
    by blast
  from in_bounds [OF p(2) assms(1,2) p(3,4)] p(1) show ?thesis
    by (simp add: price_in_bounds_def)
qed

lemma doc_price_bounds:
  assumes "minPriceOf opts \<noteq> NaN" "maxPriceOf opts \<noteq> NaN"
    "validateAndProcessData (JArr records) opts = Inr (out, sk)" "c \<in> set out"
    "price c = JNum p"
  shows "price_in_bounds (minPriceOf opts) (maxPriceOf opts) c"
proof -
  from validate_member [OF assms(3,4)] obtain item where
    acc: "docRecord (minPriceOf opts) (maxPriceOf opts) (buildingTypesOf opts) item
       = Inr (Accepted c)"
    by blast
  from docRecord_AcceptedD [OF acc] obtain pn where
    pn: "truthy (price c)" "toNumber (price c) = Inr pn" "\<not> num_lt pn (minPriceOf opts)"
       "\<not> num_lt (maxPriceOf opts) pn"
    by blast
  from pn(1,2) assms(5) have "pn = p" "num_truthy p"
    by (simp_all add: toNumber_def)
  with in_bounds [OF _ assms(1,2)] pn(3,4) assms(5) show ?thesis
    by (simp add: price_in_bounds_def)
qed

lemma csv_boundary:
  "p \<noteq> 0 \<Longrightarrow> processCSVRecords [ex_priced p] (bounds (Fin lo) (Fin hi)) =
     (if lo \<le> p \<and> p \<le> hi then ([ex_priced_rec p (JStr (U ''2023-01''))], 0) else ([], 1))"
  by (simp add: js_eval ex_priced_def ex_priced_rec_def bounds_def)

lemma db_boundary:
  "p \<noteq> 0 \<Longrightarrow> processDatabaseRecords fmtDate [ex_priced p] (bounds (Fin lo) (Fin hi)) =
     (if lo \<le> p \<and> p \<le> hi then ([ex_priced_rec p JUndefined], 0) else ([], 1))"
  by (simp add: js_eval ex_priced_def ex_priced_rec_def bounds_def)

lemma doc_boundary:
  "p \<noteq> 0 \<Longrightarrow>
   validateAndProcessData (JArr [ex_doc ex_pos (JNum (Fin p)) (JStr (U ''2023-01''))])
       (bounds (Fin lo) (Fin hi)) =
     Inr (if lo \<le> p \<and> p \<le> hi
          then ([ex_doc_rec ex_pos (JNum (Fin p)) (JStr (U ''2023-01''))], 0) else ([], 1))"
  by (simp add: js_eval ex_doc_def ex_doc_rec_def ex_pos_def bounds_def)

text \<open>
  C1, as amended. With bounds that are numbers other than NaN (the defaults are), every
  record returned by the CSV loader or by the database loader has a numeric price \<open>p\<close>
  with \<open>minPrice \<le> p \<le> maxPrice\<close>, and so has every record returned by the document
  loader whose price is a number. The bounds are inclusive: in each loader a row that is
  valid otherwise and has a non-zero price \<open>p\<close> is accepted exactly when
  \<open>minPrice \<le> p \<le> maxPrice\<close>; so a price equal to a bound is accepted and a price one
  unit outside is rejected.
\<close>

theorem C1_price_within_bounds:
  "(minPriceOf opts \<noteq> NaN \<and> maxPriceOf opts \<noteq> NaN
      \<and> c \<in> set (fst (processCSVRecords records opts))
      \<longrightarrow> price_in_bounds (minPriceOf opts) (maxPriceOf opts) c)
   \<and> (minPriceOf opts \<noteq> NaN \<and> maxPriceOf opts \<noteq> NaN
      \<and> c \<in> set (fst (processDatabaseRecords fmtDate records opts))
      \<longrightarrow> price_in_bounds (minPriceOf opts) (maxPriceOf opts) c)
   \<and> (minPriceOf opts \<noteq> NaN \<and> maxPriceOf opts \<noteq> NaN
      \<and> validateAndProcessData (JArr records) opts = Inr (out, sk) \<and> c \<in> set out
      \<and> price c = JNum n
      \<longrightarrow> price_in_bounds (minPriceOf opts) (maxPriceOf opts) c)
   \<and> (p \<noteq> 0 \<longrightarrow>
        processCSVRecords [ex_priced p] (bounds (Fin lo) (Fin hi)) =
          (if lo \<le> p \<and> p \<le> hi then ([ex_priced_rec p (JStr (U ''2023-01''))], 0)
           else ([], 1)))
   \<and> (p \<noteq> 0 \<longrightarrow>
        processDatabaseRecords fmtDate [ex_priced p] (bounds (Fin lo) (Fin hi)) =
          (if lo \<le> p \<and> p \<le> hi then ([ex_priced_rec p JUndefined], 0) else ([], 1)))
   \<and> (p \<noteq> 0 \<longrightarrow>
        validateAndProcessData (JArr [ex_doc ex_pos (JNum (Fin p)) (JStr (U ''2023-01''))])
            (bounds (Fin lo) (Fin hi)) =
          Inr (if lo \<le> p \<and> p \<le> hi
               then ([ex_doc_rec ex_pos (JNum (Fin p)) (JStr (U ''2023-01''))], 0)
               else ([], 1)))"
  using csv_price_bounds [of opts c records] db_price_bounds [of opts c fmtDate records]
    doc_price_bounds [of opts records out sk c n] csv_boundary [of p lo hi]
    db_boundary [of p fmtDate lo hi] doc_boundary [of p lo hi]
  by blast

theorem C1_price_within_bounds_witness:
  "minPriceOf defaultOptions = Fin 100000 \<and> maxPriceOf defaultOptions = Fin 2000000
   \<and> ex_rec1 (JStr (U ''2023-01'')) \<in> set (fst (processCSVRecords [ex_row1, ex_row2] defaultOptions))
   \<and> price_in_bounds (Fin 100000) (Fin 2000000) (ex_rec1 (JStr (U ''2023-01'')))
   \<and> ex_rec1 JUndefined
        \<in> set (fst (processDatabaseRecords (\<lambda>d. []) [ex_row1, ex_row2] defaultOptions))
   \<and> price_in_bounds (Fin 100000) (Fin 2000000) (ex_rec1 JUndefined)
   \<and> validateAndProcessData (JArr [ex_doc ex_pos (JNum (Fin 850000)) (JStr (U ''2023-01''))])
        defaultOptions
      = Inr ([ex_doc_rec ex_pos (JNum (Fin 850000)) (JStr (U ''2023-01''))], 0)
   \<and> price_in_bounds (Fin 100000) (Fin 2000000)
        (ex_doc_rec ex_pos (JNum (Fin 850000)) (JStr (U ''2023-01'')))
   \<and> processCSVRecords [ex_priced 100000] (bounds (Fin 100000) (Fin 2000000))
        = ([ex_priced_rec 100000 (JStr (U ''2023-01''))], 0)
   \<and> processCSVRecords [ex_priced 99999] (bounds (Fin 100000) (Fin 2000000)) = ([], 1)
   \<and> processDatabaseRecords (\<lambda>d. []) [ex_priced 2000000] (bounds (Fin 100000) (Fin 2000000))
        = ([ex_priced_rec 2000000 JUndefined], 0)
   \<and> processDatabaseRecords (\<lambda>d. []) [ex_priced 2000001] (bounds (Fin 100000) (Fin 2000000))
        = ([], 1)
   \<and> validateAndProcessData (JArr [ex_doc ex_pos (JNum (Fin 2000000)) (JStr (U ''2023-01''))])
        (bounds (Fin 100000) (Fin 2000000))
      = Inr ([ex_doc_rec ex_pos (JNum (Fin 2000000)) (JStr (U ''2023-01''))], 0)
   \<and> validateAndProcessData (JArr [ex_doc ex_pos (JNum (Fin 99999)) (JStr (U ''2023-01''))])
        (bounds (Fin 100000) (Fin 2000000))
      = Inr ([], 1)"
proof -
  have lo: "minPriceOf defaultOptions = Fin 100000" and hi: "maxPriceOf defaultOptions = Fin 2000000"
    by (simp_all add: js_eval)
  have nn: "minPriceOf defaultOptions \<noteq> NaN \<and> maxPriceOf defaultOptions \<noteq> NaN"
    by (simp add: js_eval)
  have csv: "ex_rec1 (JStr (U ''2023-01''))
      \<in> set (fst (processCSVRecords [ex_row1, ex_row2] defaultOptions))"
    by (simp add: js_eval)
  have db: "ex_rec1 JUndefined
      \<in> set (fst (processDatabaseRecords (\<lambda>d. []) [ex_row1, ex_row2] defaultOptions))"
    by (simp add: js_eval)
  have doc: "validateAndProcessData
      (JArr [ex_doc ex_pos (JNum (Fin 850000)) (JStr (U ''2023-01''))]) defaultOptions
      = Inr ([ex_doc_rec ex_pos (JNum (Fin 850000)) (JStr (U ''2023-01''))], 0)"
    by (simp add: js_eval ex_doc_def ex_doc_rec_def ex_pos_def)
  have docp: "price (ex_doc_rec ex_pos (JNum (Fin 850000)) (JStr (U ''2023-01'')))
      = JNum (Fin 850000)"
    by (simp add: ex_doc_rec_def)
  from C1_price_within_bounds [where opts = defaultOptions
      and c = "ex_rec1 (JStr (U ''2023-01''))" and records = "[ex_row1, ex_row2]",
      THEN conjunct1] nn csv lo hi
  have w1: "price_in_bounds (Fin 100000) (Fin 2000000) (ex_rec1 (JStr (U ''2023-01'')))"
    by simp
  from C1_price_within_bounds [where opts = defaultOptions
      and c = "ex_rec1 JUndefined" and records = "[ex_row1, ex_row2]" and fmtDate = "\<lambda>d. []",
      THEN conjunct2, THEN conjunct1] nn db lo hi
  have w2: "price_in_bounds (Fin 100000) (Fin 2000000) (ex_rec1 JUndefined)"
    by simp
  from C1_price_within_bounds [where opts = defaultOptions
      and c = "ex_doc_rec ex_pos (JNum (Fin 850000)) (JStr (U ''2023-01''))"
      and records = "[ex_doc ex_pos (JNum (Fin 850000)) (JStr (U ''2023-01''))]"
      and out = "[ex_doc_rec ex_pos (JNum (Fin 850000)) (JStr (U ''2023-01''))]" and sk = 0
      and n = "Fin 850000",
      THEN conjunct2, THEN conjunct2, THEN conjunct1] nn doc docp lo hi
  have w3: "price_in_bounds (Fin 100000) (Fin 2000000)
      (ex_doc_rec ex_pos (JNum (Fin 850000)) (JStr (U ''2023-01'')))"
    by simp
  from C1_price_within_bounds [where p = 100000 and lo = 100000 and hi = 2000000,
      THEN conjunct2, THEN conjunct2, THEN conjunct2, THEN conjunct1]
  have w4: "processCSVRecords [ex_priced 100000] (bounds (Fin 100000) (Fin 2000000))
      = ([ex_priced_rec 100000 (JStr (U ''2023-01''))], 0)"
    by simp
  from C1_price_within_bounds [where p = 99999 and lo = 100000 and hi = 2000000,
      THEN conjunct2, THEN conjunct2, THEN conjunct2, THEN conjunct1]
  have w5: "processCSVRecords [ex_priced 99999] (bounds (Fin 100000) (Fin 2000000)) = ([], 1)"
    by simp
  from C1_price_within_bounds [where p = 2000000 and lo = 100000 and hi = 2000000
      and fmtDate = "\<lambda>d. []",
      THEN conjunct2, THEN conjunct2, THEN conjunct2, THEN conjunct2, THEN conjunct1]
  have w6: "processDatabaseRecords (\<lambda>d. []) [ex_priced 2000000]
      (bounds (Fin 100000) (Fin 2000000)) = ([ex_priced_rec 2000000 JUndefined], 0)"
    by simp
  from C1_price_within_bounds [where p = 2000001 and lo = 100000 and hi = 2000000
      and fmtDate = "\<lambda>d. []",
      THEN conjunct2, THEN conjunct2, THEN conjunct2, THEN conjunct2, THEN conjunct1]
  have w7: "processDatabaseRecords (\<lambda>d. []) [ex_priced 2000001]
      (bounds (Fin 100000) (Fin 2000000)) = ([], 1)"
    by simp
  from C1_price_within_bounds [where p = 2000000 and lo = 100000 and hi = 2000000,
      THEN conjunct2, THEN conjunct2, THEN conjunct2, THEN conjunct2, THEN conjunct2]
  have w8: "validateAndProcessData
      (JArr [ex_doc ex_pos (JNum (Fin 2000000)) (JStr (U ''2023-01''))])
      (bounds (Fin 100000) (Fin 2000000))
      = Inr ([ex_doc_rec ex_pos (JNum (Fin 2000000)) (JStr (U ''2023-01''))], 0)"
    by simp
  from C1_price_within_bounds [where p = 99999 and lo = 100000 and hi = 2000000,
      THEN conjunct2, THEN conjunct2, THEN conjunct2, THEN conjunct2, THEN conjunct2]
  have w9: "validateAndProcessData
      (JArr [ex_doc ex_pos (JNum (Fin 99999)) (JStr (U ''2023-01''))])
      (bounds (Fin 100000) (Fin 2000000)) = Inr ([], 1)"
    by simp
  from lo hi csv w1 db w2 doc w3 w4 w5 w6 w7 w8 w9 show ?thesis
    by blast
qed

text \<open>
  C1 as stated fails for the document loader: an item whose price is the string
  \<^verbatim>\<open>abc\<close> is returned under the default bounds, and its price is not a number between
  them.
\<close>

theorem C1_document_price_counterexample:
  "validateAndProcessData (JArr [ex_doc ex_pos (JStr (U ''abc'')) (JStr (U ''2023-01''))])
       defaultOptions
     = Inr ([ex_doc_rec ex_pos (JStr (U ''abc'')) (JStr (U ''2023-01''))], 0)
   \<and> \<not> price_in_bounds (minPriceOf defaultOptions) (maxPriceOf defaultOptions)
         (ex_doc_rec ex_pos (JStr (U ''abc'')) (JStr (U ''2023-01'')))"
  by (simp add: js_eval ex_doc_def ex_doc_rec_def ex_pos_def)

subsection \<open>The date stage\<close>

lemma csvYearMonth_str:
  "csvYearMonth (JStr s) =
     (if NIAN \<in> set s then Inr (Some (convertROCtoAD_str s))
      else if gregorian_prefix s then Inr (Some (JStr (take 7 s)))
      else Inr None)"
  by (simp add: csvYearMonth_def convertROCtoAD_def bindE_def)

lemma csvRecord_date_skipped:
  "getValue record (a_yearMonth m) = Inr rawDate \<Longrightarrow> csvYearMonth rawDate = Inr None
    \<Longrightarrow> csvRecord m lo hi bt record = Inr Skipped"
  by (simp add: csvRecord_def bindE_def)

lemma realEstateRecord_date_skipped:
  "orProps (row_obj r) [K_tradeYM, K_tradeYMD] = Inr d \<Longrightarrow> convertROCtoAD d = Inr JNull
    \<Longrightarrow> realEstateRecord lo hi bt rand i r = Inr (Skipped, i)"
  by (simp add: realEstateRecord_def bindE_def Let_def)

text \<open>
  C2, as amended. The normalization is done in two places. \<^verbatim>\<open>convertROCtoAD\<close> tries the
  era-offset long form, then the compact five-digit era form, and returns \<^verbatim>\<open>null\<close>
  otherwise: the long form of year 112, month 01 and the compact \<^verbatim>\<open>11201\<close> both give
  \<^verbatim>\<open>2023-01\<close>, and \<^verbatim>\<open>processRealEstateData\<close> skips a row whose date gives \<^verbatim>\<open>null\<close>. The
  date stage of the CSV loader passes a raw date that contains U+5E74 to
  \<^verbatim>\<open>convertROCtoAD\<close>, takes the first seven characters of a raw date that starts with
  \<^verbatim>\<open>YYYY-MM\<close> (so \<^verbatim>\<open>2023-01-15\<close> gives \<^verbatim>\<open>2023-01\<close>), and skips the row for every other raw
  date: an absent one, and a string without U+5E74 and without that prefix.
\<close>

theorem C2_calendar_normalization:
  "convertROCtoAD (JStr ex_long_form) = Inr (JStr (U ''2023-01''))
   \<and> convertROCtoAD (JStr (U ''11201'')) = Inr (JStr (U ''2023-01''))
   \<and> (match1 s = Some (y, mo) \<longrightarrow>
        convertROCtoAD (JStr s) = Inr (JStr (show_nat (digits_val y + 1911) @ [45] @ padStart2 mo)))
   \<and> (match1 s = None \<and> match2 s = Some (y, mo) \<longrightarrow>
        convertROCtoAD (JStr s) = Inr (JStr (show_nat (digits_val y + 1911) @ [45] @ mo)))
   \<and> (match1 s = None \<and> match2 s = None \<longrightarrow> convertROCtoAD (JStr s) = Inr JNull)
   \<and> (orProps (row_obj r) [K_tradeYM, K_tradeYMD] = Inr d \<and> convertROCtoAD d = Inr JNull
        \<longrightarrow> realEstateRecord lo hi bt rand i r = Inr (Skipped, i))
   \<and> csvYearMonth (JStr ex_long_form) = Inr (Some (JStr (U ''2023-01'')))
   \<and> csvYearMonth (JStr (U ''2023-01-15'')) = Inr (Some (JStr (U ''2023-01'')))
   \<and> csvYearMonth (JStr s) =
        (if NIAN \<in> set s then Inr (Some (convertROCtoAD_str s))
         else if gregorian_prefix s then Inr (Some (JStr (take 7 s)))
         else Inr None)
   \<and> csvYearMonth JNull = Inr None
   \<and> (getValue row (a_yearMonth m) = Inr rawDate \<and> csvYearMonth rawDate = Inr None
        \<longrightarrow> csvRecord m lo hi bt row = Inr Skipped)"
proof -
  have e1: "convertROCtoAD (JStr ex_long_form) = Inr (JStr (U ''2023-01''))"
    by (simp add: js_eval ex_long_form_def)
  have e2: "convertROCtoAD (JStr (U ''11201'')) = Inr (JStr (U ''2023-01''))"
    by (simp add: js_eval)
  have o1: "match1 s = Some (y, mo) \<longrightarrow>
      convertROCtoAD (JStr s) = Inr (JStr (show_nat (digits_val y + 1911) @ [45] @ padStart2 mo))"
    by (simp add: convertROCtoAD_def convertROCtoAD_str_def)
  have o2: "match1 s = None \<and> match2 s = Some (y, mo) \<longrightarrow>
      convertROCtoAD (JStr s) = Inr (JStr (show_nat (digits_val y + 1911) @ [45] @ mo))"
    by (simp add: convertROCtoAD_def convertROCtoAD_str_def)
  have o3: "match1 s = None \<and> match2 s = None \<longrightarrow> convertROCtoAD (JStr s) = Inr JNull"
    by (simp add: convertROCtoAD_def convertROCtoAD_str_def)
  have e3: "csvYearMonth (JStr ex_long_form) = Inr (Some (JStr (U ''2023-01'')))"
    by (simp add: js_eval ex_long_form_def)
  have e4: "csvYearMonth (JStr (U ''2023-01-15'')) = Inr (Some (JStr (U ''2023-01'')))"
    by (simp add: js_eval)
  have n: "csvYearMonth JNull = Inr None"
    by (simp add: csvYearMonth_def)
  show ?thesis
    using e1 e2 o1 o2 o3 realEstateRecord_date_skipped [of r d lo hi bt rand i] e3 e4
      csvYearMonth_str [of s] n csvRecord_date_skipped [of row m rawDate lo hi bt]
    by blast
qed

theorem C2_calendar_normalization_witness:
  "match1 ex_long_form = Some (U ''112'', U ''01'')
   \<and> convertROCtoAD (JStr ex_long_form) = Inr (JStr (U ''2023-01''))
   \<and> match1 (U ''11201'') = None \<and> match2 (U ''11201'') = Some (U ''112'', U ''01'')
   \<and> convertROCtoAD (JStr (U ''11201'')) = Inr (JStr (U ''2023-01''))
   \<and> match1 (U ''2023-01-15'') = None \<and> match2 (U ''2023-01-15'') = None
   \<and> convertROCtoAD (JStr (U ''2023-01-15'')) = Inr JNull
   \<and> orProps (row_obj [(K_tradeYM, U ''2023-01-15'')]) [K_tradeYM, K_tradeYMD]
       = Inr (JStr (U ''2023-01-15''))
   \<and> realEstateRecord (Fin 100000) (Fin 2000000) [] rand_zero 0 [(K_tradeYM, U ''2023-01-15'')]
       = Inr (Skipped, 0)
   \<and> getValue (ex_dated (U ''2023/01'')) (a_yearMonth defaultMapping) = Inr (JStr (U ''2023/01''))
   \<and> csvYearMonth (JStr (U ''2023/01'')) = Inr None
   \<and> csvRecord defaultMapping (Fin 100000) (Fin 2000000) [] (ex_dated (U ''2023/01''))
        = Inr Skipped"
proof -
  have m1: "match1 ex_long_form = Some (U ''112'', U ''01'')"
    by (simp add: js_eval ex_long_form_def)
  have m2: "match1 (U ''11201'') = None \<and> match2 (U ''11201'') = Some (U ''112'', U ''01'')"
    by (simp add: js_eval)
  have m3: "match1 (U ''2023-01-15'') = None \<and> match2 (U ''2023-01-15'') = None"
    by (simp add: js_eval)
  have o: "orProps (row_obj [(K_tradeYM, U ''2023-01-15'')]) [K_tradeYM, K_tradeYMD]
      = Inr (JStr (U ''2023-01-15''))"
    by (simp add: js_eval)
  have g: "getValue (ex_dated (U ''2023/01'')) (a_yearMonth defaultMapping)
      = Inr (JStr (U ''2023/01''))"
    by (simp add: js_eval ex_dated_def)
  have y: "csvYearMonth (JStr (U ''2023/01'')) = Inr None"
    by (simp add: js_eval)
  from C2_calendar_normalization [where s = ex_long_form and y = "U ''112''" and mo = "U ''01''",
      THEN conjunct2, THEN conjunct2, THEN conjunct1] m1
  have w1: "convertROCtoAD (JStr ex_long_form) = Inr (JStr (U ''2023-01''))"
    by (simp add: js_eval)
  from C2_calendar_normalization [where s = "U ''11201''" and y = "U ''112''" and mo = "U ''01''",
      THEN conjunct2, THEN conjunct2, THEN conjunct2, THEN conjunct1] m2
  have w2: "convertROCtoAD (JStr (U ''11201'')) = Inr (JStr (U ''2023-01''))"
    by (simp add: js_eval)
  from C2_calendar_normalization [where s = "U ''2023-01-15''",
      THEN conjunct2, THEN conjunct2, THEN conjunct2, THEN conjunct2, THEN conjunct1] m3
  have w3: "convertROCtoAD (JStr (U ''2023-01-15'')) = Inr JNull"
    by blast
  from C2_calendar_normalization [where r = "[(K_tradeYM, U ''2023-01-15'')]"
      and d = "JStr (U ''2023-01-15'')" and lo = "Fin 100000" and hi = "Fin 2000000"
      and bt = "[]" and rand = rand_zero and i = 0,
      THEN conjunct2, THEN conjunct2, THEN conjunct2, THEN conjunct2, THEN conjunct2,
      THEN conjunct1] o w3
  have w4: "realEstateRecord (Fin 100000) (Fin 2000000) [] rand_zero 0
      [(K_tradeYM, U ''2023-01-15'')] = Inr (Skipped, 0)"
    by blast
  from C2_calendar_normalization [where row = "ex_dated (U ''2023/01'')" and m = defaultMapping
      and rawDate = "JStr (U ''2023/01'')" and lo = "Fin 100000" and hi = "Fin 2000000"
      and bt = "[]",
      THEN conjunct2, THEN conjunct2, THEN conjunct2, THEN conjunct2, THEN conjunct2,
      THEN conjunct2, THEN conjunct2, THEN conjunct2, THEN conjunct2, THEN conjunct2] g y
  have w5: "csvRecord defaultMapping (Fin 100000) (Fin 2000000) [] (ex_dated (U ''2023/01''))
      = Inr Skipped"
    by blast
  from m1 w1 m2 w2 m3 w3 o w4 g y w5 show ?thesis
    by blast
qed

text \<open>
  C2 as stated fails. In the CSV loader the compact form \<^verbatim>\<open>11201\<close> is not normalized:
  the row is skipped. And \<^verbatim>\<open>convertROCtoAD\<close>, the only place that knows the compact
  form, returns \<^verbatim>\<open>null\<close> for \<^verbatim>\<open>2023-01-15\<close>.
\<close>

theorem C2_compact_form_counterexample:
  "csvYearMonth (JStr (U ''11201'')) = Inr None
   \<and> processCSVRecords [ex_dated (U ''11201'')] defaultOptions = ([], 1)
   \<and> convertROCtoAD (JStr (U ''2023-01-15'')) = Inr JNull"
  by (simp add: js_eval ex_dated_def)

subsection \<open>The year-month of an accepted row\<close>

























subsection \<open>Coordinates\<close>

lemma run_rows_skip:
  "accepted body r = None \<Longrightarrow>
     run_rows body (r # rs) (out, sk) = run_rows body rs (out, sk + 1)"
  by (cases "body r") (auto simp: accepted_def split: outcome.splits)

lemma csvRecord_coords:
  assumes "csvRecord m lo hi bt record = Inr (Accepted c)"
  shows "\<exists>latv lat lngv lng.
           getValue record (a_latitude m) = Inr latv \<and> parseFloat latv = Inr lat
           \<and> getValue record (a_longitude m) = Inr lngv \<and> parseFloat lngv = Inr lng
           \<and> num_truthy lat \<and> num_truthy lng \<and> position c = JArr [JNum lng, JNum lat]"
  using assms unfolding csvRecord_def csvFinish_def bindE_def
  by (auto split: sum.splits option.splits if_splits)

lemma dbRecord_coords:
  assumes "dbRecord f lo hi bt record = Inr (Accepted c)"
  shows "\<exists>latv lat lngv lng.
           orProps record [U ''latitude'', U ''lat''] = Inr latv \<and> parseFloat latv = Inr lat
           \<and> orProps record [U ''longitude'', U ''lng'', U ''lon''] = Inr lngv
           \<and> parseFloat lngv = Inr lng
           \<and> num_truthy lat \<and> num_truthy lng \<and> position c = JArr [JNum lng, JNum lat]"
  using assms unfolding dbRecord_def bindE_def
  by (auto split: sum.splits option.splits if_splits)

lemma csv_bad_coords:
  assumes "getValue record (a_latitude m) = Inr latv" "parseFloat latv = Inr lat"
    "getValue record (a_longitude m) = Inr lngv" "parseFloat lngv = Inr lng"
    "\<not> num_truthy lat \<or> \<not> num_truthy lng"
  shows "accepted (csvRecord m lo hi bt) record = None"
proof (cases "csvRecord m lo hi bt record")
  case (Inl e)
  then show ?thesis by (simp add: accepted_def)
next
  case (Inr oc)
  show ?thesis
  proof (cases oc)
    case Skipped
    with Inr show ?thesis by (simp add: accepted_def)
  next
    case (Accepted c)
    with Inr have "csvRecord m lo hi bt record = Inr (Accepted c)" by simp
    from csvRecord_coords [OF this] assms show ?thesis by auto
  qed
qed

lemma db_bad_coords:
  assumes "orProps record [U ''latitude'', U ''lat''] = Inr latv" "parseFloat latv = Inr lat"
    "orProps record [U ''longitude'', U ''lng'', U ''lon''] = Inr lngv"
    "parseFloat lngv = Inr lng"
    "\<not> num_truthy lat \<or> \<not> num_truthy lng"
  shows "accepted (dbRecord f lo hi bt) record = None"
proof (cases "dbRecord f lo hi bt record")
  case (Inl e)
  then show ?thesis by (simp add: accepted_def)
next
  case (Inr oc)
  show ?thesis
  proof (cases oc)
    case Skipped
    with Inr show ?thesis by (simp add: accepted_def)
  next
    case (Accepted c)
    with Inr have "dbRecord f lo hi bt record = Inr (Accepted c)" by simp
    from dbRecord_coords [OF this] assms show ?thesis by auto
  qed
qed

text \<open>
  C5, as amended. In the CSV loader and in the database loader, a row whose resolved
  latitude or longitude is absent (\<^verbatim>\<open>null\<close> or \<^verbatim>\<open>undefined\<close>, which parse to NaN), parses
  to NaN or parses to exactly zero is not pushed: wherever it stands in the loop, the
  output is left as it is, \<^verbatim>\<open>skipped\<close> grows by one and the loop goes on. The two rows of
  the end-to-end example give one record and \<^verbatim>\<open>skipped = 1\<close> under the default options.
\<close>

theorem C5_missing_coordinates_skipped:
  "(getValue row (a_latitude m) = Inr latv \<and> parseFloat latv = Inr lat
      \<and> getValue row (a_longitude m) = Inr lngv \<and> parseFloat lngv = Inr lng
      \<and> (\<not> num_truthy lat \<or> \<not> num_truthy lng)
      \<longrightarrow> run_rows (csvRecord m lo hi bt) (row # rest) (out, sk)
            = run_rows (csvRecord m lo hi bt) rest (out, sk + 1))
   \<and> (orProps row [U ''latitude'', U ''lat''] = Inr latv \<and> parseFloat latv = Inr lat
      \<and> orProps row [U ''longitude'', U ''lng'', U ''lon''] = Inr lngv
      \<and> parseFloat lngv = Inr lng
      \<and> (\<not> num_truthy lat \<or> \<not> num_truthy lng)
      \<longrightarrow> run_rows (dbRecord fmtDate lo hi bt) (row # rest) (out, sk)
            = run_rows (dbRecord fmtDate lo hi bt) rest (out, sk + 1))
   \<and> parseFloat JNull = Inr NaN \<and> parseFloat JUndefined = Inr NaN
   \<and> \<not> num_truthy NaN \<and> \<not> num_truthy (Fin 0)
   \<and> processCSVRecords [ex_row1, ex_row2] defaultOptions = ([ex_rec1 (JStr (U ''2023-01''))], 1)
   \<and> processDatabaseRecords fmtDate [ex_row1, ex_row2] defaultOptions
        = ([ex_rec1 JUndefined], 1)"
proof -
  have csv: "getValue row (a_latitude m) = Inr latv \<and> parseFloat latv = Inr lat
      \<and> getValue row (a_longitude m) = Inr lngv \<and> parseFloat lngv = Inr lng
      \<and> (\<not> num_truthy lat \<or> \<not> num_truthy lng)
      \<longrightarrow> run_rows (csvRecord m lo hi bt) (row # rest) (out, sk)
            = run_rows (csvRecord m lo hi bt) rest (out, sk + 1)"
    using csv_bad_coords [of row m latv lat lngv lng lo hi bt]
      run_rows_skip [of "csvRecord m lo hi bt" row rest out sk]
    by blast
  have db: "orProps row [U ''latitude'', U ''lat''] = Inr latv \<and> parseFloat latv = Inr lat
      \<and> orProps row [U ''longitude'', U ''lng'', U ''lon''] = Inr lngv
      \<and> parseFloat lngv = Inr lng
      \<and> (\<not> num_truthy lat \<or> \<not> num_truthy lng)
      \<longrightarrow> run_rows (dbRecord fmtDate lo hi bt) (row # rest) (out, sk)
            = run_rows (dbRecord fmtDate lo hi bt) rest (out, sk + 1)"
    using db_bad_coords [of row latv lat lngv lng fmtDate lo hi bt]
      run_rows_skip [of "dbRecord fmtDate lo hi bt" row rest out sk]
    by blast
  have absent: "parseFloat JNull = Inr NaN \<and> parseFloat JUndefined = Inr NaN
      \<and> \<not> num_truthy NaN \<and> \<not> num_truthy (Fin 0)"
    by (simp add: parseFloat_def num_truthy_def)
  have e1: "processCSVRecords [ex_row1, ex_row2] defaultOptions
      = ([ex_rec1 (JStr (U ''2023-01''))], 1)"
    by (simp add: js_eval)
  have e2: "processDatabaseRecords fmtDate [ex_row1, ex_row2] defaultOptions
      = ([ex_rec1 JUndefined], 1)"
    by (simp add: js_eval)
  from csv db absent e1 e2 show ?thesis
    by blast
qed

theorem C5_missing_coordinates_skipped_witness:
  "getValue ex_row2 (a_latitude defaultMapping) = Inr (JNum (Fin 0))
   \<and> parseFloat (JNum (Fin 0)) = Inr (Fin 0)
   \<and> getValue ex_row2 (a_longitude defaultMapping) = Inr (JNum (Fin 0))
   \<and> \<not> num_truthy (Fin 0)
   \<and> run_rows (csvRecord defaultMapping (Fin 100000) (Fin 2000000) []) [ex_row2, ex_row1] ([], 0)
       = run_rows (csvRecord defaultMapping (Fin 100000) (Fin 2000000) []) [ex_row1] ([], 1)
   \<and> orProps ex_row2 [U ''latitude'', U ''lat''] = Inr JUndefined
   \<and> orProps ex_row2 [U ''longitude'', U ''lng'', U ''lon''] = Inr JUndefined
   \<and> parseFloat JUndefined = Inr NaN
   \<and> \<not> num_truthy NaN
   \<and> run_rows (dbRecord (\<lambda>d. []) (Fin 100000) (Fin 2000000) []) [ex_row2, ex_row1] ([], 0)
       = run_rows (dbRecord (\<lambda>d. []) (Fin 100000) (Fin 2000000) []) [ex_row1] ([], 1)"
proof -
  have a: "getValue ex_row2 (a_latitude defaultMapping) = Inr (JNum (Fin 0))"
    by (simp add: js_eval)
  have b: "parseFloat (JNum (Fin 0)) = Inr (Fin 0)"
    by (simp add: parseFloat_def)
  have c: "getValue ex_row2 (a_longitude defaultMapping) = Inr (JNum (Fin 0))"
    by (simp add: js_eval)
  have d: "\<not> num_truthy (Fin 0)"
    by (simp add: num_truthy_def)
  have e: "orProps ex_row2 [U ''latitude'', U ''lat''] = Inr JUndefined"
    by (simp add: js_eval)
  have f: "orProps ex_row2 [U ''longitude'', U ''lng'', U ''lon''] = Inr JUndefined"
    by (simp add: js_eval)
  have g: "parseFloat JUndefined = Inr NaN"
    by (simp add: parseFloat_def)
  have h: "\<not> num_truthy NaN"
    by (simp add: num_truthy_def)
  from C5_missing_coordinates_skipped [where row = ex_row2 and m = defaultMapping
      and latv = "JNum (Fin 0)" and lat = "Fin 0" and lngv = "JNum (Fin 0)" and lng = "Fin 0"
      and lo = "Fin 100000" and hi = "Fin 2000000" and bt = "[]" and rest = "[ex_row1]"
      and out = "[]" and sk = 0, THEN conjunct1] a b c d
  have w1: "run_rows (csvRecord defaultMapping (Fin 100000) (Fin 2000000) [])
       [ex_row2, ex_row1] ([], 0)
     = run_rows (csvRecord defaultMapping (Fin 100000) (Fin 2000000) []) [ex_row1] ([], 0 + 1)"
    by blast
  from C5_missing_coordinates_skipped [where row = ex_row2
      and latv = JUndefined and lat = NaN and lngv = JUndefined and lng = NaN
      and lo = "Fin 100000" and hi = "Fin 2000000" and bt = "[]" and rest = "[ex_row1]"
      and out = "[]" and sk = 0 and fmtDate = "\<lambda>d. []", THEN conjunct2, THEN conjunct1] e f g h
  have w2: "run_rows (dbRecord (\<lambda>d. []) (Fin 100000) (Fin 2000000) [])
       [ex_row2, ex_row1] ([], 0)
     = run_rows (dbRecord (\<lambda>d. []) (Fin 100000) (Fin 2000000) []) [ex_row1] ([], 0 + 1)"
    by blast
  from a b c d e f g h w1 w2 show ?thesis
    by simp
qed

text \<open>
  C5 as stated fails: the latitude \<^verbatim>\<open>Infinity\<close> does not parse to a finite number, and the
  CSV loader returns the row.
\<close>

theorem C5_infinite_coordinate_counterexample:
  "parseFloat (JStr (U ''Infinity'')) = Inr PInf \<and> \<not> is_finite PInf
   \<and> processCSVRecords [ex_coords (U ''Infinity'') (U ''121.5435'')] defaultOptions
      = ([\<lparr>position = JArr [JNum (Fin (1215435 / 10000)), JNum PInf],
            price = JNum (Fin 850000), yearMonth = JStr (U ''2023-01''), area = JNum (Fin 0),
            address = JStr [], buildingType = JStr [], totalPrice = JNum (Fin 0)\<rparr>], 0)"
  by (simp add: js_eval ex_coords_def)







subsection \<open>Crossed bounds\<close>

lemma crossed_bounds: "num_lt hi lo \<Longrightarrow> p \<noteq> NaN \<Longrightarrow> num_lt p lo \<or> num_lt hi p"
  by (cases hi; cases lo; cases p) auto

lemma csv_crossed:
  assumes "num_lt hi lo"
  shows "accepted (csvRecord m lo hi bt) r = None"
proof (cases "csvRecord m lo hi bt r")
  case (Inl e)
  then show ?thesis by (simp add: accepted_def)
next
  case (Inr oc)
  show ?thesis
  proof (cases oc)
    case Skipped
    with Inr show ?thesis by (simp add: accepted_def)
  next
    case (Accepted c)
    with Inr have "csvRecord m lo hi bt r = Inr (Accepted c)" by simp
    from csvRecord_AcceptedD [OF this] obtain p where
      "num_truthy p" "\<not> num_lt p lo" "\<not> num_lt hi p"
      by blast
    with crossed_bounds [OF assms, of p] show ?thesis
      by (simp add: num_truthy_def)
  qed
qed

lemma db_crossed:
  assumes "num_lt hi lo"
  shows "accepted (dbRecord f lo hi bt) r = None"
proof (cases "dbRecord f lo hi bt r")
  case (Inl e)
  then show ?thesis by (simp add: accepted_def)
next
  case (Inr oc)
  show ?thesis
  proof (cases oc)
    case Skipped
    with Inr show ?thesis by (simp add: accepted_def)
  next
    case (Accepted c)
    with Inr have "dbRecord f lo hi bt r = Inr (Accepted c)" by simp
    from dbRecord_AcceptedD [OF this] obtain p where
      "num_truthy p" "\<not> num_lt p lo" "\<not> num_lt hi p"
      by blast
    with crossed_bounds [OF assms, of p] show ?thesis
      by (simp add: num_truthy_def)
  qed
qed

lemma doc_crossed:
  assumes "num_lt (maxPriceOf opts) (minPriceOf opts)"
    "validateAndProcessData (JArr records) opts = Inr (out, sk)" "c \<in> set out"
  shows "toNumber (price c) = Inr NaN \<and> (\<forall>n. price c \<noteq> JNum n)"
proof -
  from validate_member [OF assms(2,3)] obtain item where
    acc: "docRecord (minPriceOf opts) (maxPriceOf opts) (buildingTypesOf opts) item
       = Inr (Accepted c)"
    by blast
  from docRecord_AcceptedD [OF acc] obtain pn where
    pn: "truthy (price c)" "toNumber (price c) = Inr pn" "\<not> num_lt pn (minPriceOf opts)"
       "\<not> num_lt (maxPriceOf opts) pn"
    by blast
  from crossed_bounds [OF assms(1), of pn] pn(3,4) have nan: "pn = NaN"
    by blast
  have "price c \<noteq> JNum n" for n
  proof
    assume "price c = JNum n"
    with pn(1,2) nan show False
      by (simp add: toNumber_def num_truthy_def)
  qed
  with pn(2) nan show ?thesis by simp
qed

text \<open>
  C10, as amended. When \<^verbatim>\<open>minPrice\<close> is strictly greater than \<^verbatim>\<open>maxPrice\<close>, the CSV loader
  and the database loader return no record and count every row as skipped, for every
  sequence of rows; nothing is raised for the configuration. The document loader returns
  normally too, and returns no record whose price is a number: the price of a record it
  returns converts to NaN.
\<close>

theorem C10_crossed_bounds_pass_nothing:
  "(num_lt (maxPriceOf opts) (minPriceOf opts) \<longrightarrow>
      processCSVRecords records opts = ([], length records)
      \<and> processDatabaseRecords fmtDate records opts = ([], length records)
      \<and> (\<exists>out sk. validateAndProcessData (JArr records) opts = Inr (out, sk)))
   \<and> (num_lt (maxPriceOf opts) (minPriceOf opts)
        \<and> validateAndProcessData (JArr records) opts = Inr (out, sk) \<and> c \<in> set out
      \<longrightarrow> toNumber (price c) = Inr NaN \<and> (\<forall>n. price c \<noteq> JNum n))"
proof -
  have csv: "processCSVRecords records opts = ([], length records)"
    if "num_lt (maxPriceOf opts) (minPriceOf opts)"
    unfolding processCSVRecords_def using csv_crossed [OF that]
    by (intro run_rows_none) simp
  have db: "processDatabaseRecords fmtDate records opts = ([], length records)"
    if "num_lt (maxPriceOf opts) (minPriceOf opts)"
    unfolding processDatabaseRecords_def using db_crossed [OF that]
    by (intro run_rows_none) simp
  have doc: "\<exists>out sk. validateAndProcessData (JArr records) opts = Inr (out, sk)"
    by (simp add: validateAndProcessData_def run_rows_char)
  from csv db doc doc_crossed [of opts records out sk c] show ?thesis
    by blast
qed

theorem C10_crossed_bounds_pass_nothing_witness:
  "num_lt (maxPriceOf (bounds (Fin 2000000) (Fin 100000)))
          (minPriceOf (bounds (Fin 2000000) (Fin 100000)))
   \<and> processCSVRecords [ex_row1, ex_row2] (bounds (Fin 2000000) (Fin 100000)) = ([], 2)
   \<and> processDatabaseRecords (\<lambda>d. []) [ex_row1, ex_row2] (bounds (Fin 2000000) (Fin 100000))
       = ([], 2)
   \<and> validateAndProcessData (JArr [ex_doc ex_pos (JStr (U ''abc'')) (JStr (U ''2023-01''))])
       (bounds (Fin 2000000) (Fin 100000))
     = Inr ([ex_doc_rec ex_pos (JStr (U ''abc'')) (JStr (U ''2023-01''))], 0)
   \<and> toNumber (price (ex_doc_rec ex_pos (JStr (U ''abc'')) (JStr (U ''2023-01'')))) = Inr NaN"
proof -
  have h: "num_lt (maxPriceOf (bounds (Fin 2000000) (Fin 100000)))
      (minPriceOf (bounds (Fin 2000000) (Fin 100000)))"
    by (simp add: bounds_def minPriceOf_def maxPriceOf_def orDefault_def)
  have doc: "validateAndProcessData
      (JArr [ex_doc ex_pos (JStr (U ''abc'')) (JStr (U ''2023-01''))])
      (bounds (Fin 2000000) (Fin 100000))
      = Inr ([ex_doc_rec ex_pos (JStr (U ''abc'')) (JStr (U ''2023-01''))], 0)"
    by (simp add: js_eval ex_doc_def ex_doc_rec_def ex_pos_def bounds_def)
  from C10_crossed_bounds_pass_nothing [where opts = "bounds (Fin 2000000) (Fin 100000)"
      and records = "[ex_row1, ex_row2]" and fmtDate = "\<lambda>d. []", THEN conjunct1] h
  have w1: "processCSVRecords [ex_row1, ex_row2] (bounds (Fin 2000000) (Fin 100000)) = ([], 2)
      \<and> processDatabaseRecords (\<lambda>d. []) [ex_row1, ex_row2] (bounds (Fin 2000000) (Fin 100000))
        = ([], 2)"
    by simp
  from C10_crossed_bounds_pass_nothing [where opts = "bounds (Fin 2000000) (Fin 100000)"
      and records = "[ex_doc ex_pos (JStr (U ''abc'')) (JStr (U ''2023-01''))]"
      and out = "[ex_doc_rec ex_pos (JStr (U ''abc'')) (JStr (U ''2023-01''))]" and sk = 0
      and c = "ex_doc_rec ex_pos (JStr (U ''abc'')) (JStr (U ''2023-01''))",
      THEN conjunct2] h doc
  have w2: "toNumber (price (ex_doc_rec ex_pos (JStr (U ''abc'')) (JStr (U ''2023-01''))))
      = Inr NaN"
    by simp
  from h w1 doc w2 show ?thesis
    by blast
qed

text \<open>
  C10 as stated fails for the document loader: with the bounds crossed, an item whose
  price is the string \<^verbatim>\<open>abc\<close> is returned.
\<close>

theorem C10_document_crossed_counterexample:
  "num_lt (maxPriceOf (bounds (Fin 2000000) (Fin 100000)))
          (minPriceOf (bounds (Fin 2000000) (Fin 100000)))
   \<and> validateAndProcessData (JArr [ex_doc ex_pos (JStr (U ''abc'')) (JStr (U ''2023-01''))])
       (bounds (Fin 2000000) (Fin 100000))
     = Inr ([ex_doc_rec ex_pos (JStr (U ''abc'')) (JStr (U ''2023-01''))], 0)"
  by (simp add: js_eval ex_doc_def ex_doc_rec_def ex_pos_def bounds_def)

subsection \<open>The random source of \<^verbatim>\<open>processRealEstateData\<close>\<close>

lemma strip_bind:
  "(\<And>v. strip_result (f v) = strip_result (g v))
    \<Longrightarrow> strip_result (bindE m f) = strip_result (bindE m g)"
  by (cases m) (simp_all add: bindE_def)

lemma strip_if:
  "strip_result a = strip_result a' \<Longrightarrow> strip_result b = strip_result b'
    \<Longrightarrow> strip_result (if c then a else b) = strip_result (if c then a' else b')"
  by simp

lemma strip_skipped: "strip_result (Inr (Skipped, i)) = strip_result (Inr (Skipped, i'))"
  by simp

lemma coords_rand:
  "(\<exists>e. realEstateCoords rand i rw = Inl e \<and> realEstateCoords rand' i' rw = Inl e)
   \<or> (\<exists>x x'. realEstateCoords rand i rw = Inr x \<and> realEstateCoords rand' i' rw = Inr x')"
  by (auto simp: realEstateCoords_def bindE_def geocodeAddress_def split: sum.splits)

lemma finish_strip:
  "strip_result (realEstateFinish rw ymv up bt addr x)
   = strip_result (realEstateFinish rw ymv up bt addr x')"
  by (cases x; cases x')
     (simp add: realEstateFinish_def bindE_def strip_position_def split: sum.split prod.split)

lemma strip_coords:
  "strip_result (bindE (realEstateCoords rand i rw) (realEstateFinish rw ymv up bt addr))
   = strip_result (bindE (realEstateCoords rand' i' rw)
       (realEstateFinish rw ymv up bt addr))"
  using coords_rand [of rand i rw rand' i'] finish_strip [of rw ymv up bt addr]
  by (auto simp: bindE_def)

lemma realEstateRecord_rand:
  "strip_result (realEstateRecord lo hi bt rand i r)
   = strip_result (realEstateRecord lo hi bt rand' i' r)"
  unfolding realEstateRecord_def Let_def
  by (intro strip_coords strip_skipped strip_bind strip_if)

lemma coords_present:
  "has_coords r \<Longrightarrow> realEstateCoords rand i (row_obj r) = realEstateCoords rand' i (row_obj r)"
  by (simp add: realEstateCoords_def has_coords_def bindE_def split: sum.splits)

lemma realEstateRecord_coords:
  "has_coords r \<Longrightarrow> realEstateRecord lo hi bt rand i r = realEstateRecord lo hi bt rand' i r"
  by (simp only: realEstateRecord_def Let_def coords_present [of r rand i rand'])

lemma strip_result_eqD:
  "strip_result x = strip_result x' \<Longrightarrow>
     (\<exists>e. x = Inl e \<and> x' = Inl e)
     \<or> (\<exists>j j'. x = Inr (Skipped, j) \<and> x' = Inr (Skipped, j'))
     \<or> (\<exists>c c' j j'. x = Inr (Accepted c, j) \<and> x' = Inr (Accepted c', j')
           \<and> strip_position c = strip_position c')"
  by (cases x rule: strip_result.cases; cases x' rule: strip_result.cases) auto

lemma loop_rand:
  assumes "map strip_position out = map strip_position out'"
  shows "snd (fst (realEstateLoop lo hi bt rand rs ((out, sk), i)))
       = snd (fst (realEstateLoop lo hi bt rand' rs ((out', sk), i')))
     \<and> map strip_position (fst (fst (realEstateLoop lo hi bt rand rs ((out, sk), i))))
       = map strip_position (fst (fst (realEstateLoop lo hi bt rand' rs ((out', sk), i'))))"
  using assms
proof (induction rs arbitrary: out out' sk i i')
  case Nil
  then show ?case by simp
next
  case (Cons r rs)
  from strip_result_eqD [OF realEstateRecord_rand [of lo hi bt rand i r rand' i']]
  consider (err) e where "realEstateRecord lo hi bt rand i r = Inl e"
      "realEstateRecord lo hi bt rand' i' r = Inl e"
    | (skip) j j' where "realEstateRecord lo hi bt rand i r = Inr (Skipped, j)"
      "realEstateRecord lo hi bt rand' i' r = Inr (Skipped, j')"
    | (acc) c c' j j' where "realEstateRecord lo hi bt rand i r = Inr (Accepted c, j)"
      "realEstateRecord lo hi bt rand' i' r = Inr (Accepted c', j')"
      "strip_position c = strip_position c'"
    by blast
  then show ?case
  proof cases
    case err
    with Cons.IH [OF Cons.prems, of "sk + 1" i i'] show ?thesis by simp
  next
    case skip
    with Cons.IH [OF Cons.prems, of "sk + 1" j j'] show ?thesis by simp
  next
    case acc
    from acc(3) Cons.prems
    have "map strip_position (out @ [c]) = map strip_position (out' @ [c'])" by simp
    from Cons.IH [OF this, of sk j j'] acc(1,2) show ?thesis by simp
  qed
qed

lemma loop_coords:
  "list_all has_coords rs \<Longrightarrow>
     realEstateLoop lo hi bt rand rs acc = realEstateLoop lo hi bt rand' rs acc"
proof (induction rs arbitrary: acc)
  case Nil
  show ?case by simp
next
  case (Cons r rs)
  obtain out sk i where acc: "acc = ((out, sk), i)"
    by (cases acc) auto
  from Cons.prems have r: "has_coords r" and rs: "list_all has_coords rs"
    by simp_all
  show ?case
    unfolding acc
    by (simp add: realEstateRecord_coords [OF r, of lo hi bt rand _ rand'] Cons.IH [OF rs]
        split: sum.split prod.split outcome.split)
qed

text \<open>
  C9, as amended. Two runs of \<^verbatim>\<open>processRealEstateData\<close> on the same rows with the same
  options, whatever \<^verbatim>\<open>Math.random\<close> returns in each, count the same number of skipped rows
  and return records that agree in every field but the position. When every row has a
  non-empty latitude and a non-empty longitude, the two runs return the same records.
  The position of a row accepted without both coordinates is drawn from \<^verbatim>\<open>Math.random\<close>.
\<close>

theorem C9_runs_agree_up_to_random_position:
  "snd (processRealEstateData rand records opts) = snd (processRealEstateData rand' records opts)
   \<and> map strip_position (fst (processRealEstateData rand records opts))
       = map strip_position (fst (processRealEstateData rand' records opts))
   \<and> (list_all has_coords records \<longrightarrow>
        processRealEstateData rand records opts = processRealEstateData rand' records opts)"
proof -
  have "map strip_position [] = map strip_position []"
    by simp
  from loop_rand [OF this, of "minPriceOf opts" "maxPriceOf opts" "buildingTypesOf opts"
      rand records 0 0 rand' 0]
  have a: "snd (processRealEstateData rand records opts)
        = snd (processRealEstateData rand' records opts)
      \<and> map strip_position (fst (processRealEstateData rand records opts))
        = map strip_position (fst (processRealEstateData rand' records opts))"
    by (simp add: processRealEstateData_def)
  have b: "list_all has_coords records \<longrightarrow>
      processRealEstateData rand records opts = processRealEstateData rand' records opts"
    using loop_coords [of records "minPriceOf opts" "maxPriceOf opts" "buildingTypesOf opts"
        rand "(([], 0), 0)" rand']
    by (simp add: processRealEstateData_def)
  from a b show ?thesis by blast
qed

theorem C9_runs_agree_up_to_random_position_witness:
  "list_all has_coords [ex_total_area_tw (U ''28.5'')]
   \<and> processRealEstateData rand_zero [ex_total_area_tw (U ''28.5'')] defaultOptions
     = processRealEstateData rand_half [ex_total_area_tw (U ''28.5'')] defaultOptions
   \<and> snd (processRealEstateData rand_zero [ex_nocoords] defaultOptions)
     = snd (processRealEstateData rand_half [ex_nocoords] defaultOptions)"
proof -
  have h: "list_all has_coords [ex_total_area_tw (U ''28.5'')]"
    by (simp add: js_eval has_coords_def ex_total_area_tw_def)
  from C9_runs_agree_up_to_random_position [where rand = rand_zero and rand' = rand_half
      and records = "[ex_total_area_tw (U ''28.5'')]" and opts = defaultOptions] h
    C9_runs_agree_up_to_random_position [where rand = rand_zero and rand' = rand_half
      and records = "[ex_nocoords]" and opts = defaultOptions]
  show ?thesis by blast
qed

text \<open>
  C9 as stated fails: a row accepted without coordinates gets another position when
  \<^verbatim>\<open>Math.random\<close> returns other numbers, with the same rows and the same options.
\<close>

theorem C9_random_position_counterexample:
  "map position (fst (processRealEstateData rand_zero [ex_nocoords] defaultOptions))
     = [JArr [JNum (Fin (1215154 / 10000)), JNum (Fin (24983 / 1000))]]
   \<and> map position (fst (processRealEstateData rand_half [ex_nocoords] defaultOptions))
     = [JArr [JNum (Fin (1215654 / 10000)), JNum (Fin (25033 / 1000))]]
   \<and> processRealEstateData rand_zero [ex_nocoords] defaultOptions
     \<noteq> processRealEstateData rand_half [ex_nocoords] defaultOptions"
proof -
  have z: "map position (fst (processRealEstateData rand_zero [ex_nocoords] defaultOptions))
     = [JArr [JNum (Fin (1215154 / 10000)), JNum (Fin (24983 / 1000))]]"
    by (simp add: js_eval ex_nocoords_def rand_zero_def)
  have h: "map position (fst (processRealEstateData rand_half [ex_nocoords] defaultOptions))
     = [JArr [JNum (Fin (1215654 / 10000)), JNum (Fin (25033 / 1000))]]"
    by (simp add: js_eval ex_nocoords_def rand_half_def)
  have "map position (fst (processRealEstateData rand_zero [ex_nocoords] defaultOptions))
     \<noteq> map position (fst (processRealEstateData rand_half [ex_nocoords] defaultOptions))"
    unfolding z h by simp
  then have "processRealEstateData rand_zero [ex_nocoords] defaultOptions
     \<noteq> processRealEstateData rand_half [ex_nocoords] defaultOptions"
    by auto
  with z h show ?thesis by blast
qed

end
